theory Spec2Isabelle
  imports Complex_Main
begin

section \<open>Data model\<close>

text \<open>
  The storefront script keeps three JSON records in browser-local storage, under the keys
  \<^verbatim>\<open>oopsSession\<close>, \<^verbatim>\<open>oopsUsers\<close> and \<^verbatim>\<open>oopsCart\<close>.
  A JavaScript object is a record here. The field \<^verbatim>\<open>id\<close> of a product is called
  \<open>pid\<close> and the field \<^verbatim>\<open>email\<close> of a session \<open>session_email\<close>, since \<open>id\<close>
  is a constant of HOL and \<open>email\<close> is the field of a user.

  A quantity is an \<open>int\<close>: the script only ever adds \<open>1\<close>, \<open>-1\<close> or an integral
  delta to it, and integers below \<open>2^53\<close> are JavaScript numbers without rounding.
  A price in storage is the decimal number of the JSON text, a \<open>rat\<close>; the script reads it
  as the nearest double (\<open>toDouble\<close> below) and computes every amount in double
  arithmetic.
\<close>

record session =
  session_email :: string

record user =
  email :: string
  phone :: string
  company :: string
  password :: string

record product =
  pid :: string
  name :: string
  price :: rat

record cart_item = product +
  quantity :: int

text \<open>
  Local storage: each key is absent (\<open>None\<close>) or holds a value. A value that does not
  parse is treated by every getter like an absent one, so it is \<open>None\<close> as well.
\<close>

record storage =
  oopsSession :: "session option"
  oopsUsers :: "user list option"
  oopsCart :: "cart_item list option"

section \<open>Persisted store\<close>

definition getSession :: "storage \<Rightarrow> session option" where
  "getSession s = oopsSession s"

definition saveSession :: "session option \<Rightarrow> storage \<Rightarrow> storage" where
  "saveSession sess s =
     (case sess of
        Some v \<Rightarrow> s\<lparr>oopsSession := Some v\<rparr>
      | None \<Rightarrow> s\<lparr>oopsSession := None\<rparr>)"

definition isLoggedIn :: "storage \<Rightarrow> bool" where
  "isLoggedIn s = (getSession s \<noteq> None)"

definition getUsers :: "storage \<Rightarrow> user list" where
  "getUsers s = (case oopsUsers s of Some us \<Rightarrow> us | None \<Rightarrow> [])"

definition saveUsers :: "user list \<Rightarrow> storage \<Rightarrow> storage" where
  "saveUsers users s = s\<lparr>oopsUsers := Some users\<rparr>"

definition getCart :: "storage \<Rightarrow> cart_item list" where
  "getCart s = (case oopsCart s of Some c \<Rightarrow> c | None \<Rightarrow> [])"

definition saveCart :: "cart_item list \<Rightarrow> storage \<Rightarrow> storage" where
  "saveCart cart s = s\<lparr>oopsCart := Some cart\<rparr>"

section \<open>JavaScript numbers\<close>

text \<open>
  A JavaScript number is an IEEE 754 binary64 value. A finite double is a rational number,
  so a double is modelled by its value, a \<open>rat\<close>, and each arithmetic operation by the
  exact operation followed by rounding to the nearest double, ties to the even mantissa.
  \<open>toDouble x\<close> is that rounding: for \<open>x \<noteq> 0\<close> the exponent \<open>e\<close> is chosen so that
  \<open>\<bar>x\<bar> / 2^e\<close> lies in \<open>[2^52, 2^53)\<close> (not below \<open>-1074\<close>, the subnormal range) and the
  mantissa is \<open>\<bar>x\<bar> / 2^e\<close> rounded to an integer. It is also what reading a decimal literal
  of the script or a number of the JSON text gives. Overflow to \<^verbatim>\<open>Infinity\<close> (from about
  \<open>1.8 * 10^308\<close>), \<^verbatim>\<open>NaN\<close> and the sign of zero are outside the model.
\<close>

function ilog2 :: "nat \<Rightarrow> nat" where
  "ilog2 n = (if n < 2 then 0 else Suc (ilog2 (n div 2)))"
  by pat_completeness auto
termination
  by (relation "measure id") auto

declare ilog2.simps [simp del]

definition pow2 :: "int \<Rightarrow> rat" where
  "pow2 k = (if 0 \<le> k then 2 ^ nat k else 1 / 2 ^ nat (- k))"

text \<open>The integer \<open>k\<close> with \<open>2^k \<le> a < 2^(k+1)\<close>, for \<open>a > 0\<close>.\<close>

definition floor_log2 :: "rat \<Rightarrow> int" where
  "floor_log2 a =
     (if 1 \<le> a then int (ilog2 (nat \<lfloor>a\<rfloor>))
      else - int (ilog2 (nat \<lceil>1 / a\<rceil> - 1)) - 1)"

definition round_half_even :: "rat \<Rightarrow> int" where
  "round_half_even x =
     (let n = \<lfloor>x\<rfloor>; r = x - of_int n
      in if r < 1 / 2 then n
         else if 1 / 2 < r then n + 1
         else if even n then n else n + 1)"

definition toDouble :: "rat \<Rightarrow> rat" where
  "toDouble x =
     (if x = 0 then 0
      else
        (let a = \<bar>x\<bar>;
             e = max (floor_log2 a - 52) (- 1074);
             m = round_half_even (a / pow2 e)
         in (if x < 0 then - 1 else 1) * of_int m * pow2 e))"

text \<open>The operators \<^verbatim>\<open>+\<close>, \<^verbatim>\<open>-\<close> and \<^verbatim>\<open>*\<close> on two doubles.\<close>

definition num_add :: "rat \<Rightarrow> rat \<Rightarrow> rat" where
  "num_add x y = toDouble (x + y)"

definition num_sub :: "rat \<Rightarrow> rat \<Rightarrow> rat" where
  "num_sub x y = toDouble (x - y)"

definition num_mul :: "rat \<Rightarrow> rat \<Rightarrow> rat" where
  "num_mul x y = toDouble (x * y)"

section \<open>Rendering numbers\<close>

text \<open>
  \<^verbatim>\<open>Number.prototype.toFixed(f)\<close> works on the exact value of the double: the sign, then
  the integer \<open>n\<close> nearest to \<open>\<bar>x\<bar> * 10^f\<close> (the larger one on a tie) written in decimal with a point
  before its last \<open>f\<close> digits, padded with zeros on the left to \<open>f + 1\<close> digits.
  (From \<open>10^21\<close> on JavaScript switches to exponent notation; amounts that large are
  outside the model.)
\<close>

definition digit_char :: "nat \<Rightarrow> char" where
  "digit_char d = ''0123456789'' ! d"

function show_nat :: "nat \<Rightarrow> string" where
  "show_nat n = (if n < 10 then [digit_char n] else show_nat (n div 10) @ [digit_char (n mod 10)])"
  by pat_completeness auto
termination
  by (relation "measure id") auto

declare show_nat.simps [simp del]

definition toFixed :: "nat \<Rightarrow> rat \<Rightarrow> string" where
  "toFixed f x =
     (let sgn = (if x < 0 then ''-'' else '''');
          n = nat \<lfloor>\<bar>x\<bar> * 10 ^ f + 1 / 2\<rfloor>;
          m = show_nat n;
          m' = (if f = 0 then m
                else let padded = replicate (f + 1 - length m) (CHR ''0'') @ m;
                         k = length padded
                     in take (k - f) padded @ ''.'' @ drop (k - f) padded)
      in sgn @ m')"

section \<open>Pricing\<close>

text \<open>
  The cart page and the checkout page each compute the order's figures from the cart with
  code of their own. \<open>totalQty\<close> is the \<^verbatim>\<open>reduce\<close> both begin with; the two chains of
  comparisons are kept apart, as are the two ways of summing the item totals
  (\<^verbatim>\<open>reduce\<close> on the cart page, a \<^verbatim>\<open>forEach\<close> that adds to a variable on the
  checkout page). The rate is kept as the decimal the script writes (\<^verbatim>\<open>0.15\<close> is
  \<open>15 / 100\<close>) and read as a double where it is multiplied; every other figure is a double.
\<close>

record pricing =
  totalQuantity :: int
  discountRate :: rat
  subtotal :: rat
  discountAmount :: rat
  grandTotal :: rat

definition totalQty :: "cart_item list \<Rightarrow> int" where
  "totalQty cart = foldl (\<lambda>sum item. sum + quantity item) 0 cart"

definition cartDiscountRate :: "int \<Rightarrow> rat" where
  "cartDiscountRate q =
     (if q \<ge> 500 then 2 / 10
      else if q \<ge> 300 then 15 / 100
      else if q \<ge> 200 then 1 / 10
      else if q \<ge> 100 then 5 / 100
      else 0)"

definition checkoutDiscountRate :: "int \<Rightarrow> rat" where
  "checkoutDiscountRate q =
     (if q \<ge> 500 then 2 / 10
      else if q \<ge> 300 then 15 / 100
      else if q \<ge> 200 then 1 / 10
      else if q \<ge> 100 then 5 / 100
      else 0)"

text \<open>
  The figures of \<^verbatim>\<open>renderCart\<close>. Its variable \<^verbatim>\<open>grandTotal\<close> is the difference
  already rendered by \<^verbatim>\<open>toFixed(2)\<close>; here the difference is kept as a number and rendered
  where the view is built (\<open>renderCart\<close> below).
\<close>

definition cartPricing :: "cart_item list \<Rightarrow> pricing" where
  "cartPricing cart =
     (let q = totalQty cart;
          rate = cartDiscountRate q;
          grandTotalRaw =
            foldl (\<lambda>sum item.
                     num_add sum (num_mul (toDouble (price item)) (of_int (quantity item))))
              0 cart;
          discount = num_mul grandTotalRaw (toDouble rate)
      in \<lparr>totalQuantity = q, discountRate = rate, subtotal = grandTotalRaw,
          discountAmount = discount, grandTotal = num_sub grandTotalRaw discount\<rparr>)"

text \<open>
  The \<^verbatim>\<open>forEach\<close> of \<^verbatim>\<open>renderCheckout\<close>: each item adds a line to the order list and
  its total to \<^verbatim>\<open>subtotal\<close>.
\<close>

record order_line =
  line_quantity :: int
  line_name :: string
  line_total :: string

fun checkoutLoop :: "cart_item list \<Rightarrow> order_line list \<times> rat \<Rightarrow> order_line list \<times> rat" where
  "checkoutLoop [] acc = acc"
| "checkoutLoop (item # rest) (html, sub) =
     (let itemTotal = num_mul (toDouble (price item)) (of_int (quantity item))
      in checkoutLoop rest
           (html @ [\<lparr>line_quantity = quantity item, line_name = name item,
                      line_total = toFixed 2 itemTotal\<rparr>],
            num_add sub itemTotal))"

definition checkoutPricing :: "cart_item list \<Rightarrow> pricing" where
  "checkoutPricing cart =
     (let q = totalQty cart;
          rate = checkoutDiscountRate q;
          sub = snd (checkoutLoop cart ([], 0));
          discount = num_mul sub (toDouble rate);
          total = num_sub sub discount
      in \<lparr>totalQuantity = q, discountRate = rate, subtotal = sub,
          discountAmount = discount, grandTotal = total\<rparr>)"

section \<open>Auth service\<close>

text \<open>
  \<^verbatim>\<open>!x\<close> on a string: only the empty string is falsy.
\<close>

definition falsy :: "string \<Rightarrow> bool" where
  "falsy x = (x = [])"

text \<open>
  \<^verbatim>\<open>registerUser\<close> returns the new user, or \<^verbatim>\<open>false\<close> (here \<open>None\<close>) when a field is
  missing or the email is taken. The argument is the object the four fields are taken from.
\<close>

definition registerUser :: "user \<Rightarrow> storage \<Rightarrow> user option \<times> storage" where
  "registerUser details s =
     (let users = getUsers s in
      if falsy (email details) \<or> falsy (phone details) \<or> falsy (company details)
         \<or> falsy (password details)
      then (None, s)
      else
        (case find (\<lambda>u. email u = email details) users of
           Some exists \<Rightarrow> (None, s)
         | None \<Rightarrow>
             (let newUser = \<lparr>email = email details, phone = phone details,
                             company = company details, password = password details\<rparr>;
                  s1 = saveUsers (users @ [newUser]) s;
                  s2 = saveSession (Some \<lparr>session_email = email details\<rparr>) s1
              in (Some newUser, s2))))"

definition loginUser :: "string \<Rightarrow> string \<Rightarrow> storage \<Rightarrow> bool \<times> storage" where
  "loginUser em pw s =
     (let users = getUsers s in
      case find (\<lambda>u. email u = em \<and> password u = pw) users of
        Some usr \<Rightarrow> (True, saveSession (Some \<lparr>session_email = em\<rparr>) s)
      | None \<Rightarrow> (False, s))"

definition logoutUser :: "storage \<Rightarrow> storage" where
  "logoutUser s = saveSession None s"

section \<open>Views\<close>

text \<open>
  The page a handler runs on: which of the elements the script looks up by id exist.
\<close>

record dom =
  cartContainer :: bool
  orderSummary :: bool
  checkoutForm :: bool

text \<open>
  What the script writes into the page is kept as structured data, not as markup: the rows
  of the cart table, the lines of the order list, and the texts of the summary.
  The lines "Subtotal" and "Bulk Discount" are written only when the rate is positive, with
  the same code on both pages.
\<close>

record cart_row =
  row_name :: string
  row_id :: string
  row_quantity :: int
  row_price :: string
  row_total :: string

record discount_lines =
  subtotal_text :: string
  percent_text :: string
  discount_text :: string

datatype cart_view =
    CartLoginRequired
  | CartEmpty
  | CartTable "cart_row list" int "discount_lines option" string bool

datatype block_reason = NotLoggedIn | EmptyCart | BelowMinimum

text \<open>
  \<open>Blocked\<close>: a message replaces the summary and the form is hidden.
  \<open>Ready\<close>: the order list, the discount lines and the order total are shown and the
  submit listener is attached to the form.
\<close>

datatype checkout_view =
    Blocked block_reason
  | Ready "order_line list" "discount_lines option" string

datatype effect =
    Alert string
  | Redirect string
  | CartCount int
  | CartContainer cart_view

definition discountLines :: "pricing \<Rightarrow> discount_lines option" where
  "discountLines p =
     (if discountRate p > 0
      then Some \<lparr>subtotal_text = toFixed 2 (subtotal p),
                 percent_text = toFixed 0 (num_mul (toDouble (discountRate p)) 100),
                 discount_text = toFixed 2 (discountAmount p)\<rparr>
      else None)"

definition cartRow :: "cart_item \<Rightarrow> cart_row" where
  "cartRow item =
     \<lparr>row_name = name item, row_id = pid item, row_quantity = quantity item,
      row_price = toFixed 2 (toDouble (price item)),
      row_total = toFixed 2 (num_mul (toDouble (price item)) (of_int (quantity item)))\<rparr>"

definition renderCart :: "dom \<Rightarrow> storage \<Rightarrow> cart_view option" where
  "renderCart d s =
     (if \<not> cartContainer d then None
      else if \<not> isLoggedIn s then Some CartLoginRequired
      else
        (let cart = getCart s in
         if length cart = 0 then Some CartEmpty
         else
           (let p = cartPricing cart
            in Some (CartTable (map cartRow cart) (totalQuantity p) (discountLines p)
                       (toFixed 2 (grandTotal p)) (\<not> totalQuantity p < 50)))))"

definition renderCheckout :: "dom \<Rightarrow> storage \<Rightarrow> checkout_view option" where
  "renderCheckout d s =
     (if \<not> orderSummary d \<or> \<not> checkoutForm d then None
      else if \<not> isLoggedIn s then Some (Blocked NotLoggedIn)
      else
        (let cart = getCart s in
         if length cart = 0 then Some (Blocked EmptyCart)
         else if totalQty cart < 50 then Some (Blocked BelowMinimum)
         else
           (let p = checkoutPricing cart
            in Some (Ready (fst (checkoutLoop cart ([], 0))) (discountLines p)
                       (toFixed 2 (grandTotal p))))))"

definition updateCartCount :: "storage \<Rightarrow> effect" where
  "updateCartCount s = CartCount (foldl (\<lambda>sum item. sum + quantity item) 0 (getCart s))"

definition refreshCart :: "dom \<Rightarrow> storage \<Rightarrow> effect list" where
  "refreshCart d s = (case renderCart d s of None \<Rightarrow> [] | Some v \<Rightarrow> [CartContainer v])"

text \<open>
  The submit listener of the checkout form, and the submission of the form on a page that
  \<open>renderCheckout\<close> left in the given view: the listener runs only where it was attached.
\<close>

definition checkoutSubmit :: "storage \<Rightarrow> storage \<times> effect list" where
  "checkoutSubmit s =
     (let s1 = saveCart [] s
      in (s1, [Alert ''Thank you for your purchase! Your order has been placed.'',
               updateCartCount s1, Redirect ''index.html'']))"

definition submitCheckoutForm :: "checkout_view option \<Rightarrow> storage \<Rightarrow> storage \<times> effect list" where
  "submitCheckoutForm view s =
     (case view of
        Some (Ready html lines order_total) \<Rightarrow> checkoutSubmit s
      | _ \<Rightarrow> (s, []))"

text \<open>
  The click listener of the logout link. Its call of \<^verbatim>\<open>updatePricingVisibility\<close> only
  shows and hides elements and is left out.
\<close>

definition logoutClick :: "storage \<Rightarrow> storage \<times> effect list" where
  "logoutClick s =
     (let s1 = logoutUser s;
          s2 = saveCart [] s1
      in (s2, [updateCartCount s2, Redirect ''index.html'']))"

section \<open>Cart service\<close>

text \<open>
  \<^verbatim>\<open>find\<close> returns the first matching object of the array, and the assignment to its
  \<^verbatim>\<open>quantity\<close> changes that element of the array in place: \<open>update_first\<close>.
\<close>

fun update_first :: "('a \<Rightarrow> bool) \<Rightarrow> ('a \<Rightarrow> 'a) \<Rightarrow> 'a list \<Rightarrow> 'a list" where
  "update_first P f [] = []"
| "update_first P f (x # xs) = (if P x then f x # xs else x # update_first P f xs)"

definition addToCart :: "product \<Rightarrow> storage \<Rightarrow> storage \<times> effect list" where
  "addToCart prd s =
     (if \<not> isLoggedIn s
      then (s, [Alert ''Please log in or register as a wholesaler to see pricing and place orders.'',
                Redirect ''login.html''])
      else
        (let cart = getCart s;
             cart' =
               (case find (\<lambda>item. pid item = pid prd) cart of
                  Some existing \<Rightarrow>
                    update_first (\<lambda>item. pid item = pid prd)
                      (\<lambda>item. item\<lparr>quantity := quantity item + 1\<rparr>) cart
                | None \<Rightarrow>
                    cart @ [\<lparr>pid = pid prd, name = name prd, price = price prd,
                             quantity = 1\<rparr>]);
             s1 = saveCart cart' s
         in (s1, [updateCartCount s1,
                  Alert (name prd @ '' has been added to your cart.'')])))"

definition removeFromCart :: "dom \<Rightarrow> string \<Rightarrow> storage \<Rightarrow> storage \<times> effect list" where
  "removeFromCart d ident s =
     (let cart = getCart s;
          cart' = filter (\<lambda>item. pid item \<noteq> ident) cart;
          s1 = saveCart cart' s
      in (s1, updateCartCount s1 # refreshCart d s1))"

definition changeQuantity :: "dom \<Rightarrow> string \<Rightarrow> int \<Rightarrow> storage \<Rightarrow> storage \<times> effect list" where
  "changeQuantity d ident delta s =
     (let cart = getCart s in
      case find (\<lambda>it. pid it = ident) cart of
        None \<Rightarrow> (s, [])
      | Some item \<Rightarrow>
          (let cart' = update_first (\<lambda>it. pid it = ident)
                         (\<lambda>it. it\<lparr>quantity := max 1 (quantity it + delta)\<rparr>) cart;
               s1 = saveCart cart' s
           in (s1, updateCartCount s1 # refreshCart d s1)))"

section \<open>Facts about the code\<close>

lemma foldl_quantity_acc:
  "foldl (\<lambda>sum item. sum + quantity item) a cart = a + sum_list (map quantity cart)"
  by (induction cart arbitrary: a) simp_all

lemma totalQty_sum_list: "totalQty cart = sum_list (map quantity cart)"
  by (simp add: totalQty_def foldl_quantity_acc)

lemma update_first_no_match:
  "\<forall>x\<in>set xs. \<not> P x \<Longrightarrow> update_first P f xs = xs"
  by (induction xs) simp_all

lemma update_first_split:
  "\<exists>x\<in>set xs. P x \<Longrightarrow>
   \<exists>pre y post. xs = pre @ y # post \<and> P y \<and> (\<forall>z\<in>set pre. \<not> P z)
      \<and> update_first P f xs = pre @ f y # post"
proof (induction xs)
  case Nil
  then show ?case by simp
next
  case (Cons a xs)
  show ?case
  proof (cases "P a")
    case True
    then have "a # xs = [] @ a # xs \<and> P a \<and> (\<forall>z\<in>set []. \<not> P z)
        \<and> update_first P f (a # xs) = [] @ f a # xs"
      by simp
    then show ?thesis by blast
  next
    case False
    with Cons.prems have "\<exists>x\<in>set xs. P x" by auto
    from Cons.IH [OF this] obtain pre y post where
      h: "xs = pre @ y # post" "P y" "\<forall>z\<in>set pre. \<not> P z"
         "update_first P f xs = pre @ f y # post"
      by blast
    from h False have "a # xs = (a # pre) @ y # post \<and> P y \<and> (\<forall>z\<in>set (a # pre). \<not> P z)
        \<and> update_first P f (a # xs) = (a # pre) @ f y # post"
      by simp
    then show ?thesis by blast
  qed
qed

lemma update_first_map_key:
  "(\<And>x. g (f x) = g x) \<Longrightarrow> map g (update_first P f xs) = map g xs"
  by (induction xs) simp_all

lemma update_first_length: "length (update_first P f xs) = length xs"
  by (induction xs) simp_all

lemma find_Some_mem: "find P xs = Some x \<Longrightarrow> x \<in> set xs \<and> P x"
  by (induction xs) (auto split: if_splits)

lemma find_key_None: "(find (\<lambda>it. g it = k) xs = None) = (k \<notin> g ` set xs)"
  by (auto simp: find_None_iff)

lemma getCart_saveCart: "getCart (saveCart c s) = c"
  by (simp add: getCart_def saveCart_def)

lemma addToCart_logged_out: "\<not> isLoggedIn s \<Longrightarrow> fst (addToCart prd s) = s"
  by (simp add: addToCart_def)

lemma find_key_Some: "find (\<lambda>it. g it = k) xs = Some x \<Longrightarrow> k \<in> g ` set xs"
  by (auto dest!: find_Some_mem)

lemma getCart_addToCart:
  assumes "isLoggedIn s"
  shows "getCart (fst (addToCart prd s)) =
     (if pid prd \<in> pid ` set (getCart s)
      then update_first (\<lambda>item. pid item = pid prd)
             (\<lambda>item. item\<lparr>quantity := quantity item + 1\<rparr>) (getCart s)
      else getCart s @ [\<lparr>pid = pid prd, name = name prd, price = price prd, quantity = 1\<rparr>])"
proof (cases "find (\<lambda>item. pid item = pid prd) (getCart s)")
  case None
  then have "pid prd \<notin> pid ` set (getCart s)"
    by (simp add: find_key_None)
  with None assms show ?thesis
    by (simp add: addToCart_def Let_def getCart_saveCart)
next
  case (Some x)
  then have "pid prd \<in> pid ` set (getCart s)"
    by (rule find_key_Some)
  with Some assms show ?thesis
    by (simp add: addToCart_def Let_def getCart_saveCart)
qed

lemma getCart_removeFromCart:
  "getCart (fst (removeFromCart d i s)) = filter (\<lambda>item. pid item \<noteq> i) (getCart s)"
  by (simp add: removeFromCart_def Let_def getCart_saveCart)

lemma getCart_changeQuantity:
  "getCart (fst (changeQuantity d i delta s)) =
     update_first (\<lambda>it. pid it = i) (\<lambda>it. it\<lparr>quantity := max 1 (quantity it + delta)\<rparr>) (getCart s)"
proof (cases "find (\<lambda>it. pid it = i) (getCart s)")
  case None
  then have "\<forall>x\<in>set (getCart s). \<not> pid x = i"
    by (auto simp: find_None_iff)
  then have "update_first (\<lambda>it. pid it = i)
      (\<lambda>it. it\<lparr>quantity := max 1 (quantity it + delta)\<rparr>) (getCart s) = getCart s"
    by (rule update_first_no_match)
  with None show ?thesis
    by (simp add: changeQuantity_def Let_def)
next
  case (Some x)
  then show ?thesis
    by (simp add: changeQuantity_def Let_def getCart_saveCart)
qed

lemma changeQuantity_absent:
  "i \<notin> pid ` set (getCart s) \<Longrightarrow> changeQuantity d i delta s = (s, [])"
  by (simp add: changeQuantity_def Let_def find_key_None [symmetric])

lemma floor_rat_numeral_divide:
  "\<lfloor>numeral a / numeral b :: rat\<rfloor> = numeral a div numeral b"
  using floor_divide_of_int_eq [of "numeral a" "numeral b", where ?'a = rat] by simp

lemma registerUser_rejected:
  "falsy (email details) \<or> falsy (phone details) \<or> falsy (company details)
     \<or> falsy (password details) \<or> (\<exists>u\<in>set (getUsers s). email u = email details)
   \<Longrightarrow> registerUser details s = (None, s)"
proof (cases "find (\<lambda>u. email u = email details) (getUsers s)")
  case None
  then have "\<not> (\<exists>u\<in>set (getUsers s). email u = email details)"
    by (auto simp: find_None_iff)
  moreover assume "falsy (email details) \<or> falsy (phone details) \<or> falsy (company details)
     \<or> falsy (password details) \<or> (\<exists>u\<in>set (getUsers s). email u = email details)"
  ultimately have "falsy (email details) \<or> falsy (phone details) \<or> falsy (company details)
     \<or> falsy (password details)"
    by blast
  then show ?thesis
    by (simp add: registerUser_def Let_def)
next
  case (Some u)
  then show ?thesis
    by (simp add: registerUser_def Let_def)
qed

lemma registerUser_accepted:
  assumes "\<not> falsy (email details)" and "\<not> falsy (phone details)"
    and "\<not> falsy (company details)" and "\<not> falsy (password details)"
    and "\<not> (\<exists>u\<in>set (getUsers s). email u = email details)"
  shows "registerUser details s =
     (Some details,
      s\<lparr>oopsUsers := Some (getUsers s @ [details]),
        oopsSession := Some \<lparr>session_email = email details\<rparr>\<rparr>)"
proof -
  from assms(5) have "find (\<lambda>u. email u = email details) (getUsers s) = None"
    by (auto simp: find_None_iff)
  with assms(1-4) show ?thesis
    by (simp add: registerUser_def Let_def saveUsers_def saveSession_def)
qed

lemma loginUser_accepted:
  "\<exists>u\<in>set (getUsers s). email u = em \<and> password u = pw \<Longrightarrow>
   loginUser em pw s = (True, s\<lparr>oopsSession := Some \<lparr>session_email = em\<rparr>\<rparr>)"
proof -
  assume "\<exists>u\<in>set (getUsers s). email u = em \<and> password u = pw"
  then have "find (\<lambda>u. email u = em \<and> password u = pw) (getUsers s) \<noteq> None"
    by (auto simp: find_None_iff)
  then obtain usr where "find (\<lambda>u. email u = em \<and> password u = pw) (getUsers s) = Some usr"
    by blast
  then show ?thesis
    by (simp add: loginUser_def Let_def saveSession_def)
qed

lemma loginUser_rejected:
  "\<not> (\<exists>u\<in>set (getUsers s). email u = em \<and> password u = pw) \<Longrightarrow>
   loginUser em pw s = (False, s)"
proof -
  assume "\<not> (\<exists>u\<in>set (getUsers s). email u = em \<and> password u = pw)"
  then have "find (\<lambda>u. email u = em \<and> password u = pw) (getUsers s) = None"
    by (auto simp: find_None_iff)
  then show ?thesis
    by (simp add: loginUser_def Let_def)
qed

lemma update_first_key_split:
  assumes "k \<in> g ` set xs"
  shows "\<exists>pre y post. xs = pre @ y # post \<and> g y = k \<and> k \<notin> g ` set pre
      \<and> update_first (\<lambda>x. g x = k) f xs = pre @ f y # post"
proof -
  from assms have "\<exists>x\<in>set xs. g x = k" by auto
  from update_first_split [of xs "\<lambda>x. g x = k" f, OF this]
  obtain pre y post where
    h: "xs = pre @ y # post" "g y = k" "\<forall>z\<in>set pre. \<not> g z = k"
       "update_first (\<lambda>x. g x = k) f xs = pre @ f y # post"
    by blast
  from h(3) have "k \<notin> g ` set pre" by auto
  with h(1,2,4) show ?thesis by blast
qed

lemma update_first_preserves_all:
  "(\<And>x. Q x \<Longrightarrow> Q (f x)) \<Longrightarrow> \<forall>x\<in>set xs. Q x \<Longrightarrow> \<forall>x\<in>set (update_first P f xs). Q x"
  by (induction xs) auto

lemma changeQuantity_present:
  assumes "i \<in> pid ` set (getCart s)"
  shows "\<exists>pre item post. getCart s = pre @ item # post \<and> pid item = i \<and> i \<notin> pid ` set pre
      \<and> getCart (fst (changeQuantity d i delta s))
          = pre @ item\<lparr>quantity := max 1 (quantity item + delta)\<rparr> # post"
  using update_first_key_split [OF assms, of "\<lambda>it. it\<lparr>quantity := max 1 (quantity it + delta)\<rparr>"]
  by (simp add: getCart_changeQuantity)

lemma changeQuantity_keeps_floor:
  assumes "\<forall>it\<in>set (getCart s). 1 \<le> quantity it"
  shows "\<forall>it\<in>set (getCart (fst (changeQuantity d i delta s))). 1 \<le> quantity it"
proof -
  have "\<And>x::cart_item. 1 \<le> quantity x \<Longrightarrow>
      1 \<le> quantity (x\<lparr>quantity := max 1 (quantity x + delta)\<rparr>)"
    by simp
  from update_first_preserves_all [of "\<lambda>x. 1 \<le> quantity x"
      "\<lambda>it. it\<lparr>quantity := max 1 (quantity it + delta)\<rparr>", OF this assms]
  show ?thesis
    by (simp add: getCart_changeQuantity)
qed

lemma addToCart_existing:
  assumes "isLoggedIn s" and "pid prd \<in> pid ` set (getCart s)"
  shows "\<exists>pre item post. getCart s = pre @ item # post \<and> pid item = pid prd
      \<and> pid prd \<notin> pid ` set pre
      \<and> getCart (fst (addToCart prd s)) = pre @ item\<lparr>quantity := quantity item + 1\<rparr> # post"
  using update_first_key_split [OF assms(2), of "\<lambda>item. item\<lparr>quantity := quantity item + 1\<rparr>"]
    assms
  by (simp add: getCart_addToCart)

lemma addToCart_new:
  assumes "isLoggedIn s" and "pid prd \<notin> pid ` set (getCart s)"
  shows "getCart (fst (addToCart prd s))
     = getCart s @ [\<lparr>pid = pid prd, name = name prd, price = price prd, quantity = 1\<rparr>]"
  using assms by (simp add: getCart_addToCart)

lemma addToCart_distinct:
  assumes "distinct (map pid (getCart s))"
  shows "distinct (map pid (getCart (fst (addToCart prd s))))"
proof (cases "isLoggedIn s")
  case False
  then show ?thesis using assms by (simp add: addToCart_logged_out)
next
  case True
  show ?thesis
  proof (cases "pid prd \<in> pid ` set (getCart s)")
    case True
    with \<open>isLoggedIn s\<close> assms show ?thesis
      by (simp add: getCart_addToCart update_first_map_key)
  next
    case False
    with \<open>isLoggedIn s\<close> assms show ?thesis
      by (simp add: getCart_addToCart)
  qed
qed

lemma submitCheckoutForm_cart:
  "getCart (fst (submitCheckoutForm view s)) = [] \<or> fst (submitCheckoutForm view s) = s"
  by (simp add: submitCheckoutForm_def checkoutSubmit_def Let_def getCart_saveCart
      split: option.splits checkout_view.splits)

lemma ceiling_rat_numeral_divide:
  "\<lceil>numeral a / numeral b :: rat\<rceil> = - (- numeral a div numeral b)"
  using ceiling_divide_eq_div [of "numeral a" "numeral b", where ?'a = rat] by simp

lemma toDouble_value_1: "toDouble 10 = 10"
  apply (simp add: toDouble_def Let_def)
  apply (simp add: floor_log2_def ilog2.simps floor_rat_numeral_divide ceiling_rat_numeral_divide)
  apply (simp add: pow2_def round_half_even_def Let_def floor_rat_numeral_divide)
  done

lemma toDouble_value_2: "toDouble (1 / 10) = 3602879701896397 / 36028797018963968"
  apply (simp add: toDouble_def Let_def)
  apply (simp add: floor_log2_def ilog2.simps floor_rat_numeral_divide ceiling_rat_numeral_divide)
  apply (simp add: pow2_def round_half_even_def Let_def floor_rat_numeral_divide)
  done

lemma toDouble_value_3: "toDouble (3 / 20) = 5404319552844595 / 36028797018963968"
  apply (simp add: toDouble_def Let_def)
  apply (simp add: floor_log2_def ilog2.simps floor_rat_numeral_divide ceiling_rat_numeral_divide)
  apply (simp add: pow2_def round_half_even_def Let_def floor_rat_numeral_divide)
  done

lemma toDouble_value_4: "toDouble (1 / 20) = 3602879701896397 / 72057594037927936"
  apply (simp add: toDouble_def Let_def)
  apply (simp add: floor_log2_def ilog2.simps floor_rat_numeral_divide ceiling_rat_numeral_divide)
  apply (simp add: pow2_def round_half_even_def Let_def floor_rat_numeral_divide)
  done

lemma toDouble_value_5: "toDouble (101 / 100) = 4548635623644201 / 4503599627370496"
  apply (simp add: toDouble_def Let_def)
  apply (simp add: floor_log2_def ilog2.simps floor_rat_numeral_divide ceiling_rat_numeral_divide)
  apply (simp add: pow2_def round_half_even_def Let_def floor_rat_numeral_divide)
  done

lemma num_mul_value_1: "num_mul 10 250 = 2500"
  apply (simp add: num_mul_def)
  apply (simp add: toDouble_def Let_def)
  apply (simp add: floor_log2_def ilog2.simps floor_rat_numeral_divide ceiling_rat_numeral_divide)
  apply (simp add: pow2_def round_half_even_def Let_def floor_rat_numeral_divide)
  done

lemma num_mul_value_2: "num_mul 10 60 = 600"
  apply (simp add: num_mul_def)
  apply (simp add: toDouble_def Let_def)
  apply (simp add: floor_log2_def ilog2.simps floor_rat_numeral_divide ceiling_rat_numeral_divide)
  apply (simp add: pow2_def round_half_even_def Let_def floor_rat_numeral_divide)
  done

lemma num_mul_value_3: "num_mul 2500 (3602879701896397 / 36028797018963968) = 250"
  apply (simp add: num_mul_def)
  apply (simp add: toDouble_def Let_def)
  apply (simp add: floor_log2_def ilog2.simps floor_rat_numeral_divide ceiling_rat_numeral_divide)
  apply (simp add: pow2_def round_half_even_def Let_def floor_rat_numeral_divide)
  done

lemma num_mul_value_4: "num_mul (3602879701896397 / 36028797018963968) 100 = 10"
  apply (simp add: num_mul_def)
  apply (simp add: toDouble_def Let_def)
  apply (simp add: floor_log2_def ilog2.simps floor_rat_numeral_divide ceiling_rat_numeral_divide)
  apply (simp add: pow2_def round_half_even_def Let_def floor_rat_numeral_divide)
  done

lemma num_mul_value_5: "num_mul 3100 (5404319552844595 / 36028797018963968) = 465"
  apply (simp add: num_mul_def)
  apply (simp add: toDouble_def Let_def)
  apply (simp add: floor_log2_def ilog2.simps floor_rat_numeral_divide ceiling_rat_numeral_divide)
  apply (simp add: pow2_def round_half_even_def Let_def floor_rat_numeral_divide)
  done

lemma num_mul_value_6: "num_mul (5404319552844595 / 36028797018963968) 100 = 15"
  apply (simp add: num_mul_def)
  apply (simp add: toDouble_def Let_def)
  apply (simp add: floor_log2_def ilog2.simps floor_rat_numeral_divide ceiling_rat_numeral_divide)
  apply (simp add: pow2_def round_half_even_def Let_def floor_rat_numeral_divide)
  done

lemma num_mul_value_7: "num_mul (4548635623644201 / 4503599627370496) 110 = 3908983739069235 / 35184372088832"
  apply (simp add: num_mul_def)
  apply (simp add: toDouble_def Let_def)
  apply (simp add: floor_log2_def ilog2.simps floor_rat_numeral_divide ceiling_rat_numeral_divide)
  apply (simp add: pow2_def round_half_even_def Let_def floor_rat_numeral_divide)
  done

lemma num_mul_value_8: "num_mul (3908983739069235 / 35184372088832) (3602879701896397 / 72057594037927936) = 781796747813847 / 140737488355328"
  apply (simp add: num_mul_def)
  apply (simp add: toDouble_def Let_def)
  apply (simp add: floor_log2_def ilog2.simps floor_rat_numeral_divide ceiling_rat_numeral_divide)
  apply (simp add: pow2_def round_half_even_def Let_def floor_rat_numeral_divide)
  done

lemma num_mul_value_9: "num_mul (3602879701896397 / 72057594037927936) 100 = 5"
  apply (simp add: num_mul_def)
  apply (simp add: toDouble_def Let_def)
  apply (simp add: floor_log2_def ilog2.simps floor_rat_numeral_divide ceiling_rat_numeral_divide)
  apply (simp add: pow2_def round_half_even_def Let_def floor_rat_numeral_divide)
  done

lemma num_add_value_1: "num_add 0 2500 = 2500"
  apply (simp add: num_add_def)
  apply (simp add: toDouble_def Let_def)
  apply (simp add: floor_log2_def ilog2.simps floor_rat_numeral_divide ceiling_rat_numeral_divide)
  apply (simp add: pow2_def round_half_even_def Let_def floor_rat_numeral_divide)
  done

lemma num_add_value_2: "num_add 0 600 = 600"
  apply (simp add: num_add_def)
  apply (simp add: toDouble_def Let_def)
  apply (simp add: floor_log2_def ilog2.simps floor_rat_numeral_divide ceiling_rat_numeral_divide)
  apply (simp add: pow2_def round_half_even_def Let_def floor_rat_numeral_divide)
  done

lemma num_add_value_3: "num_add 600 2500 = 3100"
  apply (simp add: num_add_def)
  apply (simp add: toDouble_def Let_def)
  apply (simp add: floor_log2_def ilog2.simps floor_rat_numeral_divide ceiling_rat_numeral_divide)
  apply (simp add: pow2_def round_half_even_def Let_def floor_rat_numeral_divide)
  done

lemma num_add_value_4: "num_add 0 (3908983739069235 / 35184372088832) = 3908983739069235 / 35184372088832"
  apply (simp add: num_add_def)
  apply (simp add: toDouble_def Let_def)
  apply (simp add: floor_log2_def ilog2.simps floor_rat_numeral_divide ceiling_rat_numeral_divide)
  apply (simp add: pow2_def round_half_even_def Let_def floor_rat_numeral_divide)
  done

lemma num_sub_value_1: "num_sub 2500 250 = 2250"
  apply (simp add: num_sub_def)
  apply (simp add: toDouble_def Let_def)
  apply (simp add: floor_log2_def ilog2.simps floor_rat_numeral_divide ceiling_rat_numeral_divide)
  apply (simp add: pow2_def round_half_even_def Let_def floor_rat_numeral_divide)
  done

lemma num_sub_value_2: "num_sub 600 0 = 600"
  apply (simp add: num_sub_def)
  apply (simp add: toDouble_def Let_def)
  apply (simp add: floor_log2_def ilog2.simps floor_rat_numeral_divide ceiling_rat_numeral_divide)
  apply (simp add: pow2_def round_half_even_def Let_def floor_rat_numeral_divide)
  done

lemma num_sub_value_3: "num_sub 3100 465 = 2635"
  apply (simp add: num_sub_def)
  apply (simp add: toDouble_def Let_def)
  apply (simp add: floor_log2_def ilog2.simps floor_rat_numeral_divide ceiling_rat_numeral_divide)
  apply (simp add: pow2_def round_half_even_def Let_def floor_rat_numeral_divide)
  done

lemma num_sub_value_4: "num_sub (3908983739069235 / 35184372088832) (781796747813847 / 140737488355328) = 3713534552115773 / 35184372088832"
  apply (simp add: num_sub_def)
  apply (simp add: toDouble_def Let_def)
  apply (simp add: floor_log2_def ilog2.simps floor_rat_numeral_divide ceiling_rat_numeral_divide)
  apply (simp add: pow2_def round_half_even_def Let_def floor_rat_numeral_divide)
  done

lemma toDouble_zero: "toDouble 0 = 0"
  by (simp add: toDouble_def)

lemma num_mul_zero: "num_mul x 0 = 0"
  by (simp add: num_mul_def toDouble_def)

lemmas double_values =
  toDouble_value_1 toDouble_value_2 toDouble_value_3 toDouble_value_4
  toDouble_value_5 num_mul_value_1 num_mul_value_2 num_mul_value_3
  num_mul_value_4 num_mul_value_5 num_mul_value_6 num_mul_value_7
  num_mul_value_8 num_mul_value_9 num_add_value_1 num_add_value_2
  num_add_value_3 num_add_value_4 num_sub_value_1 num_sub_value_2
  num_sub_value_3 num_sub_value_4 toDouble_zero num_mul_zero

lemma show_nat_values:
  "show_nat 1000 = ''1000''"
  "show_nat 250000 = ''250000''"
  "show_nat 25000 = ''25000''"
  "show_nat 225000 = ''225000''"
  "show_nat 60000 = ''60000''"
  "show_nat 310000 = ''310000''"
  "show_nat 46500 = ''46500''"
  "show_nat 263500 = ''263500''"
  "show_nat 11110 = ''11110''"
  "show_nat 555 = ''555''"
  "show_nat 10554 = ''10554''"
  "show_nat 101 = ''101''"
  "show_nat 10 = ''10''"
  "show_nat 15 = ''15''"
  "show_nat 5 = ''5''"
  by (simp_all add: show_nat.simps digit_char_def)

lemma toFixed_values:
  "toFixed 2 10 = ''10.00''"
  "toFixed 2 2500 = ''2500.00''"
  "toFixed 2 250 = ''250.00''"
  "toFixed 2 2250 = ''2250.00''"
  "toFixed 2 600 = ''600.00''"
  "toFixed 2 3100 = ''3100.00''"
  "toFixed 2 465 = ''465.00''"
  "toFixed 2 2635 = ''2635.00''"
  "toFixed 2 (3908983739069235 / 35184372088832) = ''111.10''"
  "toFixed 2 (781796747813847 / 140737488355328) = ''5.55''"
  "toFixed 2 (3713534552115773 / 35184372088832) = ''105.54''"
  "toFixed 2 (4548635623644201 / 4503599627370496) = ''1.01''"
  "toFixed 0 10 = ''10''"
  "toFixed 0 15 = ''15''"
  "toFixed 0 5 = ''5''"
  by (simp_all add: toFixed_def Let_def floor_rat_numeral_divide show_nat_values)

lemma checkoutLoop_snd:
  "snd (checkoutLoop cart (html, a))
     = foldl (\<lambda>sum item. num_add sum (num_mul (toDouble (price item)) (of_int (quantity item))))
         a cart"
  by (induction cart arbitrary: html a) (simp_all add: Let_def)

lemma checkoutLoop_fst:
  "fst (checkoutLoop cart (html, a))
     = html @ map (\<lambda>item. \<lparr>line_quantity = quantity item, line_name = name item,
                     line_total = toFixed 2 (num_mul (toDouble (price item))
                                               (of_int (quantity item)))\<rparr>) cart"
  by (induction cart arbitrary: html a) (simp_all add: Let_def)



lemma pricing_same_steps: "cartPricing cart = checkoutPricing cart"
  by (simp add: cartPricing_def checkoutPricing_def Let_def cartDiscountRate_def
      checkoutDiscountRate_def checkoutLoop_snd)


lemma cartPricing_rounding:
  "cartPricing [\<lparr>pid = ''a'', name = n, price = 101 / 100, quantity = 110\<rparr>]
     = \<lparr>totalQuantity = 110, discountRate = 1 / 20,
        subtotal = 3908983739069235 / 35184372088832,
        discountAmount = 781796747813847 / 140737488355328,
        grandTotal = 3713534552115773 / 35184372088832\<rparr>"
  by (simp add: cartPricing_def totalQty_def cartDiscountRate_def Let_def double_values)

lemma cartPricing_60_250:
  "cartPricing [\<lparr>pid = ''a'', name = n, price = 10, quantity = 60\<rparr>,
                \<lparr>pid = ''b'', name = m, price = 10, quantity = 250\<rparr>]
     = \<lparr>totalQuantity = 310, discountRate = 3 / 20, subtotal = 3100, discountAmount = 465,
        grandTotal = 2635\<rparr>"
  by (simp add: cartPricing_def totalQty_def cartDiscountRate_def Let_def double_values)

lemma cartPricing_60:
  "cartPricing [\<lparr>pid = ''a'', name = n, price = 10, quantity = 60\<rparr>]
     = \<lparr>totalQuantity = 60, discountRate = 0, subtotal = 600, discountAmount = 0,
        grandTotal = 600\<rparr>"
  by (simp add: cartPricing_def totalQty_def cartDiscountRate_def Let_def double_values)



lemma discountLines_60_250:
  "discountLines \<lparr>totalQuantity = 310, discountRate = 3 / 20, subtotal = 3100,
       discountAmount = 465, grandTotal = 2635\<rparr>
     = Some \<lparr>subtotal_text = ''3100.00'', percent_text = ''15'', discount_text = ''465.00''\<rparr>"
  by (simp add: discountLines_def double_values toFixed_values)





lemma renderCheckout_60:
  "renderCheckout \<lparr>cartContainer = o1, orderSummary = True, checkoutForm = True\<rparr>
       \<lparr>oopsSession = Some sess, oopsUsers = us,
        oopsCart = Some [\<lparr>pid = ''a'', name = n, price = 10, quantity = 60\<rparr>]\<rparr>
     = Some (Ready [\<lparr>line_quantity = 60, line_name = n, line_total = ''600.00''\<rparr>] None
               ''600.00'')"
  by (simp add: renderCheckout_def isLoggedIn_def getSession_def getCart_def
      pricing_same_steps [symmetric] cartPricing_60
      discountLines_def totalQty_def double_values toFixed_values)

lemma renderCheckout_60_250:
  "renderCheckout \<lparr>cartContainer = o1, orderSummary = True, checkoutForm = True\<rparr>
       \<lparr>oopsSession = Some sess, oopsUsers = us,
        oopsCart = Some [\<lparr>pid = ''a'', name = n, price = 10, quantity = 60\<rparr>,
                         \<lparr>pid = ''b'', name = m, price = 10, quantity = 250\<rparr>]\<rparr>
     = Some (Ready
         [\<lparr>line_quantity = 60, line_name = n, line_total = ''600.00''\<rparr>,
          \<lparr>line_quantity = 250, line_name = m, line_total = ''2500.00''\<rparr>]
         (Some \<lparr>subtotal_text = ''3100.00'', percent_text = ''15'', discount_text = ''465.00''\<rparr>)
         ''2635.00'')"
  by (simp add: renderCheckout_def isLoggedIn_def getSession_def getCart_def
      pricing_same_steps [symmetric] cartPricing_60_250
      discountLines_60_250 totalQty_def double_values toFixed_values)

lemma renderCheckout_blocked:
  assumes "orderSummary d" and "checkoutForm d"
  shows "(\<exists>r. renderCheckout d s = Some (Blocked r))
     = (\<not> isLoggedIn s \<or> getCart s = [] \<or> sum_list (map quantity (getCart s)) < 50)"
  using assms by (simp add: renderCheckout_def Let_def totalQty_sum_list)

lemma renderCheckout_ready:
  assumes "orderSummary d" and "checkoutForm d"
    and "isLoggedIn s" and "getCart s \<noteq> []" and "\<not> sum_list (map quantity (getCart s)) < 50"
  shows "renderCheckout d s =
     Some (Ready (fst (checkoutLoop (getCart s) ([], 0)))
             (discountLines (checkoutPricing (getCart s)))
             (toFixed 2 (grandTotal (checkoutPricing (getCart s)))))"
  using assms by (simp add: renderCheckout_def Let_def totalQty_sum_list)

lemma checkoutPricing_explicit:
  "checkoutPricing cart =
     (let q = sum_list (map quantity cart);
          rate = (if q \<ge> 500 then 20 / 100 else if q \<ge> 300 then 15 / 100
                  else if q \<ge> 200 then 10 / 100 else if q \<ge> 100 then 5 / 100 else 0);
          sub = foldl num_add 0
                  (map (\<lambda>item. num_mul (toDouble (price item)) (of_int (quantity item))) cart);
          discount = num_mul sub (toDouble rate)
      in \<lparr>totalQuantity = q, discountRate = rate, subtotal = sub, discountAmount = discount,
          grandTotal = num_sub sub discount\<rparr>)"
  by (simp add: checkoutPricing_def Let_def checkoutLoop_snd foldl_map totalQty_sum_list
      checkoutDiscountRate_def)

lemma renderCheckout_ready_explicit:
  assumes "orderSummary d" and "checkoutForm d"
    and "isLoggedIn s" and "getCart s \<noteq> []" and "\<not> sum_list (map quantity (getCart s)) < 50"
  shows "(let cart = getCart s;
              q = sum_list (map quantity cart);
              rate = (if q \<ge> 500 then 20 / 100 else if q \<ge> 300 then 15 / 100
                      else if q \<ge> 200 then 10 / 100 else if q \<ge> 100 then 5 / 100 else 0);
              sub = foldl num_add 0
                      (map (\<lambda>item. num_mul (toDouble (price item)) (of_int (quantity item)))
                         cart);
              discount = num_mul sub (toDouble rate)
          in renderCheckout d s =
               Some (Ready
                 (map (\<lambda>item. \<lparr>line_quantity = quantity item, line_name = name item,
                          line_total = toFixed 2 (num_mul (toDouble (price item))
                                                    (of_int (quantity item)))\<rparr>) cart)
                 (if rate > 0
                  then Some \<lparr>subtotal_text = toFixed 2 sub,
                             percent_text = toFixed 0 (num_mul (toDouble rate) 100),
                             discount_text = toFixed 2 discount\<rparr>
                  else None)
                 (toFixed 2 (num_sub sub discount))))"
proof -
  have "renderCheckout d s =
     Some (Ready (fst (checkoutLoop (getCart s) ([], 0)))
             (discountLines (checkoutPricing (getCart s)))
             (toFixed 2 (grandTotal (checkoutPricing (getCart s)))))"
    using assms by (rule renderCheckout_ready)
  then show ?thesis
    by (simp add: checkoutLoop_fst checkoutPricing_explicit [of "getCart s"] discountLines_def
        Let_def)
qed

lemma submit_ready_clears:
  "getCart (fst (submitCheckoutForm (Some (Ready html lines tot)) s')) = []"
  by (simp add: submitCheckoutForm_def checkoutSubmit_def Let_def getCart_saveCart)

lemma submit_blocked_keeps:
  "fst (submitCheckoutForm (Some (Blocked r)) s') = s'"
  by (simp add: submitCheckoutForm_def)

section \<open>Claims\<close>

text \<open>
  C1. The discount rate of a cart is a step function of its total quantity, the sum of the
  item quantities: 0.20 from 500 up, 0.15 from 300, 0.10 from 200, 0.05 from 100 and 0
  below 100, on the cart page and on the checkout page alike. At the quantities
  99, 100, 199, 200, 299, 300, 499, 500 the rate is 0, 0.05, 0.05, 0.10, 0.10, 0.15, 0.15, 0.20.
\<close>

theorem discount_rate_step_function:
  "totalQuantity (cartPricing cart) = sum_list (map quantity cart)
   \<and> totalQuantity (checkoutPricing cart) = sum_list (map quantity cart)
   \<and> discountRate (cartPricing cart) = cartDiscountRate (sum_list (map quantity cart))
   \<and> discountRate (checkoutPricing cart) = checkoutDiscountRate (sum_list (map quantity cart))
   \<and> cartDiscountRate q =
       (if q \<ge> 500 then 20 / 100 else if q \<ge> 300 then 15 / 100
        else if q \<ge> 200 then 10 / 100 else if q \<ge> 100 then 5 / 100 else 0)
   \<and> checkoutDiscountRate q =
       (if q \<ge> 500 then 20 / 100 else if q \<ge> 300 then 15 / 100
        else if q \<ge> 200 then 10 / 100 else if q \<ge> 100 then 5 / 100 else 0)
   \<and> map cartDiscountRate [99, 100, 199, 200, 299, 300, 499, 500]
       = [0, 5 / 100, 5 / 100, 10 / 100, 10 / 100, 15 / 100, 15 / 100, 20 / 100]
   \<and> map checkoutDiscountRate [99, 100, 199, 200, 299, 300, 499, 500]
       = [0, 5 / 100, 5 / 100, 10 / 100, 10 / 100, 15 / 100, 15 / 100, 20 / 100]"
proof -
  have "totalQuantity (cartPricing cart) = sum_list (map quantity cart)"
    by (simp add: cartPricing_def Let_def totalQty_sum_list)
  moreover have "totalQuantity (checkoutPricing cart) = sum_list (map quantity cart)"
    by (simp add: checkoutPricing_def Let_def totalQty_sum_list)
  moreover have "discountRate (cartPricing cart) = cartDiscountRate (sum_list (map quantity cart))"
    by (simp add: cartPricing_def Let_def totalQty_sum_list)
  moreover have "discountRate (checkoutPricing cart)
      = checkoutDiscountRate (sum_list (map quantity cart))"
    by (simp add: checkoutPricing_def Let_def totalQty_sum_list)
  moreover have "cartDiscountRate q =
       (if q \<ge> 500 then 20 / 100 else if q \<ge> 300 then 15 / 100
        else if q \<ge> 200 then 10 / 100 else if q \<ge> 100 then 5 / 100 else 0)"
    by (simp add: cartDiscountRate_def)
  moreover have "checkoutDiscountRate q =
       (if q \<ge> 500 then 20 / 100 else if q \<ge> 300 then 15 / 100
        else if q \<ge> 200 then 10 / 100 else if q \<ge> 100 then 5 / 100 else 0)"
    by (simp add: checkoutDiscountRate_def)
  moreover have "map cartDiscountRate [99, 100, 199, 200, 299, 300, 499, 500]
       = [0, 5 / 100, 5 / 100, 10 / 100, 10 / 100, 15 / 100, 15 / 100, 20 / 100]"
    by (simp add: cartDiscountRate_def)
  moreover have "map checkoutDiscountRate [99, 100, 199, 200, 299, 300, 499, 500]
       = [0, 5 / 100, 5 / 100, 10 / 100, 10 / 100, 15 / 100, 15 / 100, 20 / 100]"
    by (simp add: checkoutDiscountRate_def)
  ultimately show ?thesis by blast
qed



text \<open>
  C3. On the checkout page the flow is blocked exactly when nobody is logged in, or the cart
  is empty, or the total quantity is below 50; a blocked page has no submit listener.
  Otherwise it is ready: it shows one order line per item of the cart, in order; the lines
  "Subtotal" and "Bulk Discount" when the tier rate of the total quantity is positive; and
  the order total, the subtotal minus the discount; these are the figures of the checkout
  pricing. Submitting the form of a ready page leaves the cart empty. A logged-in cart of
  one item of price 10 and quantity 60 is ready, with rate 0 and grand total 600.00; one
  with 60 and 250 units at price 10 shows two lines, 15 percent, 465.00 off and 2635.00.
\<close>

theorem checkout_blocked_iff:
  assumes "orderSummary d" and "checkoutForm d"
  shows "((\<exists>r. renderCheckout d s = Some (Blocked r))
       = (\<not> isLoggedIn s \<or> getCart s = [] \<or> sum_list (map quantity (getCart s)) < 50))
   \<and> ((\<exists>r. renderCheckout d s = Some (Blocked r)) \<longrightarrow>
        fst (submitCheckoutForm (renderCheckout d s) s') = s')
   \<and> (isLoggedIn s \<and> getCart s \<noteq> [] \<and> \<not> sum_list (map quantity (getCart s)) < 50 \<longrightarrow>
        (let cart = getCart s;
             q = sum_list (map quantity cart);
             rate = (if q \<ge> 500 then 20 / 100 else if q \<ge> 300 then 15 / 100
                     else if q \<ge> 200 then 10 / 100 else if q \<ge> 100 then 5 / 100 else 0);
             sub = foldl num_add 0
                     (map (\<lambda>item. num_mul (toDouble (price item)) (of_int (quantity item)))
                        cart);
             discount = num_mul sub (toDouble rate)
         in renderCheckout d s =
              Some (Ready
                (map (\<lambda>item. \<lparr>line_quantity = quantity item, line_name = name item,
                         line_total = toFixed 2 (num_mul (toDouble (price item))
                                                   (of_int (quantity item)))\<rparr>) cart)
                (if rate > 0
                 then Some \<lparr>subtotal_text = toFixed 2 sub,
                            percent_text = toFixed 0 (num_mul (toDouble rate) 100),
                            discount_text = toFixed 2 discount\<rparr>
                 else None)
                (toFixed 2 (num_sub sub discount))))
        \<and> renderCheckout d s =
          Some (Ready (fst (checkoutLoop (getCart s) ([], 0)))
                  (discountLines (checkoutPricing (getCart s)))
                  (toFixed 2 (grandTotal (checkoutPricing (getCart s)))))
        \<and> getCart (fst (submitCheckoutForm (renderCheckout d s) s')) = [])
   \<and> renderCheckout \<lparr>cartContainer = o1, orderSummary = True, checkoutForm = True\<rparr>
         \<lparr>oopsSession = Some sess, oopsUsers = us,
          oopsCart = Some [\<lparr>pid = ''a'', name = n, price = 10, quantity = 60\<rparr>]\<rparr>
       = Some (Ready [\<lparr>line_quantity = 60, line_name = n, line_total = ''600.00''\<rparr>] None
                 ''600.00'')
   \<and> checkoutPricing [\<lparr>pid = ''a'', name = n, price = 10, quantity = 60\<rparr>]
       = \<lparr>totalQuantity = 60, discountRate = 0, subtotal = 600, discountAmount = 0,
          grandTotal = 600\<rparr>
   \<and> renderCheckout \<lparr>cartContainer = o1, orderSummary = True, checkoutForm = True\<rparr>
         \<lparr>oopsSession = Some sess, oopsUsers = us,
          oopsCart = Some [\<lparr>pid = ''a'', name = n, price = 10, quantity = 60\<rparr>,
                           \<lparr>pid = ''b'', name = m, price = 10, quantity = 250\<rparr>]\<rparr>
       = Some (Ready
           [\<lparr>line_quantity = 60, line_name = n, line_total = ''600.00''\<rparr>,
            \<lparr>line_quantity = 250, line_name = m, line_total = ''2500.00''\<rparr>]
           (Some \<lparr>subtotal_text = ''3100.00'', percent_text = ''15'',
                   discount_text = ''465.00''\<rparr>)
           ''2635.00'')"
proof -
  have b: "(\<exists>r. renderCheckout d s = Some (Blocked r))
       = (\<not> isLoggedIn s \<or> getCart s = [] \<or> sum_list (map quantity (getCart s)) < 50)"
    using assms by (rule renderCheckout_blocked)
  have k: "(\<exists>r. renderCheckout d s = Some (Blocked r)) \<longrightarrow>
        fst (submitCheckoutForm (renderCheckout d s) s') = s'"
    by (auto simp: submit_blocked_keeps)
  have r: "isLoggedIn s \<and> getCart s \<noteq> [] \<and> \<not> sum_list (map quantity (getCart s)) < 50 \<longrightarrow>
        (let cart = getCart s;
             q = sum_list (map quantity cart);
             rate = (if q \<ge> 500 then 20 / 100 else if q \<ge> 300 then 15 / 100
                     else if q \<ge> 200 then 10 / 100 else if q \<ge> 100 then 5 / 100 else 0);
             sub = foldl num_add 0
                     (map (\<lambda>item. num_mul (toDouble (price item)) (of_int (quantity item)))
                        cart);
             discount = num_mul sub (toDouble rate)
         in renderCheckout d s =
              Some (Ready
                (map (\<lambda>item. \<lparr>line_quantity = quantity item, line_name = name item,
                         line_total = toFixed 2 (num_mul (toDouble (price item))
                                                   (of_int (quantity item)))\<rparr>) cart)
                (if rate > 0
                 then Some \<lparr>subtotal_text = toFixed 2 sub,
                            percent_text = toFixed 0 (num_mul (toDouble rate) 100),
                            discount_text = toFixed 2 discount\<rparr>
                 else None)
                (toFixed 2 (num_sub sub discount))))
        \<and> renderCheckout d s =
          Some (Ready (fst (checkoutLoop (getCart s) ([], 0)))
                  (discountLines (checkoutPricing (getCart s)))
                  (toFixed 2 (grandTotal (checkoutPricing (getCart s)))))
        \<and> getCart (fst (submitCheckoutForm (renderCheckout d s) s')) = []"
  proof
    assume h: "isLoggedIn s \<and> getCart s \<noteq> [] \<and> \<not> sum_list (map quantity (getCart s)) < 50"
    from h have h3: "isLoggedIn s" and h4: "getCart s \<noteq> []"
      and h5: "\<not> sum_list (map quantity (getCart s)) < 50"
      by simp_all
    have e1: "(let cart = getCart s;
             q = sum_list (map quantity cart);
             rate = (if q \<ge> 500 then 20 / 100 else if q \<ge> 300 then 15 / 100
                     else if q \<ge> 200 then 10 / 100 else if q \<ge> 100 then 5 / 100 else 0);
             sub = foldl num_add 0
                     (map (\<lambda>item. num_mul (toDouble (price item)) (of_int (quantity item)))
                        cart);
             discount = num_mul sub (toDouble rate)
         in renderCheckout d s =
              Some (Ready
                (map (\<lambda>item. \<lparr>line_quantity = quantity item, line_name = name item,
                         line_total = toFixed 2 (num_mul (toDouble (price item))
                                                   (of_int (quantity item)))\<rparr>) cart)
                (if rate > 0
                 then Some \<lparr>subtotal_text = toFixed 2 sub,
                            percent_text = toFixed 0 (num_mul (toDouble rate) 100),
                            discount_text = toFixed 2 discount\<rparr>
                 else None)
                (toFixed 2 (num_sub sub discount))))"
      by (rule renderCheckout_ready_explicit [OF assms h3 h4 h5])
    from h assms have e2: "renderCheckout d s =
          Some (Ready (fst (checkoutLoop (getCart s) ([], 0)))
                  (discountLines (checkoutPricing (getCart s)))
                  (toFixed 2 (grandTotal (checkoutPricing (getCart s)))))"
      by (simp add: renderCheckout_ready)
    then have e3: "getCart (fst (submitCheckoutForm (renderCheckout d s) s')) = []"
      by (simp add: submit_ready_clears)
    from e1 e2 e3 show "(let cart = getCart s;
             q = sum_list (map quantity cart);
             rate = (if q \<ge> 500 then 20 / 100 else if q \<ge> 300 then 15 / 100
                     else if q \<ge> 200 then 10 / 100 else if q \<ge> 100 then 5 / 100 else 0);
             sub = foldl num_add 0
                     (map (\<lambda>item. num_mul (toDouble (price item)) (of_int (quantity item)))
                        cart);
             discount = num_mul sub (toDouble rate)
         in renderCheckout d s =
              Some (Ready
                (map (\<lambda>item. \<lparr>line_quantity = quantity item, line_name = name item,
                         line_total = toFixed 2 (num_mul (toDouble (price item))
                                                   (of_int (quantity item)))\<rparr>) cart)
                (if rate > 0
                 then Some \<lparr>subtotal_text = toFixed 2 sub,
                            percent_text = toFixed 0 (num_mul (toDouble rate) 100),
                            discount_text = toFixed 2 discount\<rparr>
                 else None)
                (toFixed 2 (num_sub sub discount))))
        \<and> renderCheckout d s =
          Some (Ready (fst (checkoutLoop (getCart s) ([], 0)))
                  (discountLines (checkoutPricing (getCart s)))
                  (toFixed 2 (grandTotal (checkoutPricing (getCart s)))))
        \<and> getCart (fst (submitCheckoutForm (renderCheckout d s) s')) = []"
      by blast
  qed
  have p: "checkoutPricing [\<lparr>pid = ''a'', name = n, price = 10, quantity = 60\<rparr>]
       = \<lparr>totalQuantity = 60, discountRate = 0, subtotal = 600, discountAmount = 0,
          grandTotal = 600\<rparr>"
    using cartPricing_60 [of n] by (simp add: pricing_same_steps)
  from b k r p renderCheckout_60 [of o1 sess us n] renderCheckout_60_250 [of o1 sess us n m]
  show ?thesis by blast
qed

theorem checkout_blocked_iff_witness:
  "orderSummary \<lparr>cartContainer = False, orderSummary = True, checkoutForm = True\<rparr>
   \<and> checkoutForm \<lparr>cartContainer = False, orderSummary = True, checkoutForm = True\<rparr>
   \<and> isLoggedIn \<lparr>oopsSession = Some \<lparr>session_email = ''a@b.com''\<rparr>, oopsUsers = None,
          oopsCart = Some [\<lparr>pid = ''a'', name = ''Test kit'', price = 10, quantity = 60\<rparr>,
                           \<lparr>pid = ''b'', name = ''Twin pack'', price = 10, quantity = 250\<rparr>]\<rparr>
   \<and> getCart \<lparr>oopsSession = Some \<lparr>session_email = ''a@b.com''\<rparr>, oopsUsers = None,
          oopsCart = Some [\<lparr>pid = ''a'', name = ''Test kit'', price = 10, quantity = 60\<rparr>,
                           \<lparr>pid = ''b'', name = ''Twin pack'', price = 10, quantity = 250\<rparr>]\<rparr>
       \<noteq> []
   \<and> \<not> sum_list (map quantity (getCart \<lparr>oopsSession = Some \<lparr>session_email = ''a@b.com''\<rparr>,
          oopsUsers = None,
          oopsCart = Some [\<lparr>pid = ''a'', name = ''Test kit'', price = 10, quantity = 60\<rparr>,
                           \<lparr>pid = ''b'', name = ''Twin pack'', price = 10, quantity = 250\<rparr>]\<rparr>))
         < 50
   \<and> renderCheckout \<lparr>cartContainer = False, orderSummary = True, checkoutForm = True\<rparr>
         \<lparr>oopsSession = Some \<lparr>session_email = ''a@b.com''\<rparr>, oopsUsers = None,
          oopsCart = Some [\<lparr>pid = ''a'', name = ''Test kit'', price = 10, quantity = 60\<rparr>,
                           \<lparr>pid = ''b'', name = ''Twin pack'', price = 10, quantity = 250\<rparr>]\<rparr>
       = Some (Ready
           [\<lparr>line_quantity = 60, line_name = ''Test kit'', line_total = ''600.00''\<rparr>,
            \<lparr>line_quantity = 250, line_name = ''Twin pack'', line_total = ''2500.00''\<rparr>]
           (Some \<lparr>subtotal_text = ''3100.00'', percent_text = ''15'',
                   discount_text = ''465.00''\<rparr>)
           ''2635.00'')
   \<and> getCart (fst (submitCheckoutForm
         (renderCheckout \<lparr>cartContainer = False, orderSummary = True, checkoutForm = True\<rparr>
            \<lparr>oopsSession = Some \<lparr>session_email = ''a@b.com''\<rparr>, oopsUsers = None,
             oopsCart = Some [\<lparr>pid = ''a'', name = ''Test kit'', price = 10, quantity = 60\<rparr>,
                              \<lparr>pid = ''b'', name = ''Twin pack'', price = 10, quantity = 250\<rparr>]\<rparr>)
         \<lparr>oopsSession = Some \<lparr>session_email = ''a@b.com''\<rparr>, oopsUsers = None,
          oopsCart = Some [\<lparr>pid = ''a'', name = ''Test kit'', price = 10, quantity = 60\<rparr>,
                           \<lparr>pid = ''b'', name = ''Twin pack'', price = 10, quantity = 250\<rparr>]\<rparr>))
       = []"
proof -
  let ?d = "\<lparr>cartContainer = False, orderSummary = True, checkoutForm = True\<rparr>"
  let ?s = "\<lparr>oopsSession = Some \<lparr>session_email = ''a@b.com''\<rparr>, oopsUsers = None,
          oopsCart = Some [\<lparr>pid = ''a'', name = ''Test kit'', price = 10, quantity = 60\<rparr>,
                           \<lparr>pid = ''b'', name = ''Twin pack'', price = 10, quantity = 250\<rparr>]\<rparr>"
  have h1: "orderSummary ?d" by simp
  have h2: "checkoutForm ?d" by simp
  have h3: "isLoggedIn ?s" by (simp add: isLoggedIn_def getSession_def)
  have h4: "getCart ?s \<noteq> []" by (simp add: getCart_def)
  have h5: "\<not> sum_list (map quantity (getCart ?s)) < 50" by (simp add: getCart_def)
  note t = checkout_blocked_iff [OF h1 h2, of ?s ?s False "\<lparr>session_email = ''a@b.com''\<rparr>"
      None "''Test kit''" "''Twin pack''"]
  from t have v: "renderCheckout ?d ?s
       = Some (Ready
           [\<lparr>line_quantity = 60, line_name = ''Test kit'', line_total = ''600.00''\<rparr>,
            \<lparr>line_quantity = 250, line_name = ''Twin pack'', line_total = ''2500.00''\<rparr>]
           (Some \<lparr>subtotal_text = ''3100.00'', percent_text = ''15'',
                   discount_text = ''465.00''\<rparr>)
           ''2635.00'')"
    by blast
  from t h3 h4 h5 have c: "getCart (fst (submitCheckoutForm (renderCheckout ?d ?s) ?s)) = []"
    by blast
  from h1 h2 h3 h4 h5 v c show ?thesis by blast
qed

text \<open>
  C4. Registration is rejected exactly when a field is empty or a user of the directory has
  the same email (compared as strings, so case matters). A rejected registration leaves the
  store, and so the directory and its length, as it was. An accepted one appends the user to
  the directory and opens a session for the email.
\<close>

theorem register_rejected_iff:
  "(fst (registerUser details s) = None) =
      (falsy (email details) \<or> falsy (phone details) \<or> falsy (company details)
       \<or> falsy (password details) \<or> (\<exists>u\<in>set (getUsers s). email u = email details))
   \<and> (fst (registerUser details s) = None \<longrightarrow>
        snd (registerUser details s) = s
        \<and> length (getUsers (snd (registerUser details s))) = length (getUsers s))
   \<and> (fst (registerUser details s) \<noteq> None \<longrightarrow>
        fst (registerUser details s) = Some details
        \<and> getUsers (snd (registerUser details s)) = getUsers s @ [details]
        \<and> getSession (snd (registerUser details s)) = Some \<lparr>session_email = email details\<rparr>
        \<and> isLoggedIn (snd (registerUser details s))
        \<and> oopsCart (snd (registerUser details s)) = oopsCart s)
   \<and> falsy x = (x = [])"
proof (cases "falsy (email details) \<or> falsy (phone details) \<or> falsy (company details)
       \<or> falsy (password details) \<or> (\<exists>u\<in>set (getUsers s). email u = email details)")
  case True
  then have "registerUser details s = (None, s)"
    by (rule registerUser_rejected)
  with True show ?thesis
    by (simp add: falsy_def)
next
  case False
  then have "registerUser details s =
     (Some details,
      s\<lparr>oopsUsers := Some (getUsers s @ [details]),
        oopsSession := Some \<lparr>session_email = email details\<rparr>\<rparr>)"
    by (simp add: registerUser_accepted)
  with False show ?thesis
    by (simp add: getUsers_def getSession_def isLoggedIn_def falsy_def)
qed

theorem register_rejected_iff_witness:
  "(\<exists>u\<in>set (getUsers \<lparr>oopsSession = None,
        oopsUsers = Some [\<lparr>email = ''a@b.com'', phone = ''1'', company = ''Acme'', password = ''pw''\<rparr>],
        oopsCart = None\<rparr>). email u = ''a@b.com'')
   \<and> registerUser \<lparr>email = ''a@b.com'', phone = ''2'', company = ''Other'', password = ''x''\<rparr>
        \<lparr>oopsSession = None,
         oopsUsers = Some [\<lparr>email = ''a@b.com'', phone = ''1'', company = ''Acme'', password = ''pw''\<rparr>],
         oopsCart = None\<rparr>
       = (None, \<lparr>oopsSession = None,
         oopsUsers = Some [\<lparr>email = ''a@b.com'', phone = ''1'', company = ''Acme'', password = ''pw''\<rparr>],
         oopsCart = None\<rparr>)
   \<and> fst (registerUser \<lparr>email = ''A@b.com'', phone = ''2'', company = ''Other'', password = ''x''\<rparr>
        \<lparr>oopsSession = None,
         oopsUsers = Some [\<lparr>email = ''a@b.com'', phone = ''1'', company = ''Acme'', password = ''pw''\<rparr>],
         oopsCart = None\<rparr>) \<noteq> None
   \<and> getUsers (snd (registerUser
          \<lparr>email = ''A@b.com'', phone = ''2'', company = ''Other'', password = ''x''\<rparr>
          \<lparr>oopsSession = None,
           oopsUsers = Some [\<lparr>email = ''a@b.com'', phone = ''1'', company = ''Acme'', password = ''pw''\<rparr>],
           oopsCart = None\<rparr>))
       = [\<lparr>email = ''a@b.com'', phone = ''1'', company = ''Acme'', password = ''pw''\<rparr>,
          \<lparr>email = ''A@b.com'', phone = ''2'', company = ''Other'', password = ''x''\<rparr>]
   \<and> isLoggedIn (snd (registerUser
          \<lparr>email = ''A@b.com'', phone = ''2'', company = ''Other'', password = ''x''\<rparr>
          \<lparr>oopsSession = None,
           oopsUsers = Some [\<lparr>email = ''a@b.com'', phone = ''1'', company = ''Acme'', password = ''pw''\<rparr>],
           oopsCart = None\<rparr>))"
proof -
  let ?s = "\<lparr>oopsSession = None,
         oopsUsers = Some [\<lparr>email = ''a@b.com'', phone = ''1'', company = ''Acme'', password = ''pw''\<rparr>],
         oopsCart = None\<rparr>"
  let ?d1 = "\<lparr>email = ''a@b.com'', phone = ''2'', company = ''Other'', password = ''x''\<rparr>"
  let ?d2 = "\<lparr>email = ''A@b.com'', phone = ''2'', company = ''Other'', password = ''x''\<rparr>"
  have u: "getUsers ?s
      = [\<lparr>email = ''a@b.com'', phone = ''1'', company = ''Acme'', password = ''pw''\<rparr>]"
    by (simp add: getUsers_def)
  have h1: "\<exists>u\<in>set (getUsers ?s). email u = ''a@b.com''"
    by (simp add: u)
  have h2: "\<not> (falsy (email ?d2) \<or> falsy (phone ?d2) \<or> falsy (company ?d2)
       \<or> falsy (password ?d2) \<or> (\<exists>u\<in>set (getUsers ?s). email u = email ?d2))"
    by (simp add: u falsy_def)
  from register_rejected_iff [of ?d1 ?s] h1
  have r1: "fst (registerUser ?d1 ?s) = None \<and> snd (registerUser ?d1 ?s) = ?s"
    by simp
  then have r1': "registerUser ?d1 ?s = (None, ?s)"
    by (simp add: prod_eq_iff)
  from register_rejected_iff [of ?d2 ?s] h2
  have r2: "fst (registerUser ?d2 ?s) \<noteq> None
      \<and> getUsers (snd (registerUser ?d2 ?s)) = getUsers ?s @ [?d2]
      \<and> isLoggedIn (snd (registerUser ?d2 ?s))"
    by blast
  from h1 r1' r2 u show ?thesis by simp
qed

text \<open>
  C5. Login succeeds exactly when a user of the directory has the given email and the given
  password. On success the session is the one for that email; on rejection the store, and so
  the session, is unchanged. Logging in as x@x.com with password p when there is no such
  user is rejected.
\<close>

theorem login_succeeds_iff:
  "fst (loginUser em pw s) = (\<exists>u\<in>set (getUsers s). email u = em \<and> password u = pw)
   \<and> (fst (loginUser em pw s) \<longrightarrow>
        getSession (snd (loginUser em pw s)) = Some \<lparr>session_email = em\<rparr>
        \<and> snd (loginUser em pw s) = s\<lparr>oopsSession := Some \<lparr>session_email = em\<rparr>\<rparr>)
   \<and> (\<not> fst (loginUser em pw s) \<longrightarrow> snd (loginUser em pw s) = s)
   \<and> (\<not> (\<exists>u\<in>set (getUsers s). email u = ''x@x.com'' \<and> password u = ''p'') \<longrightarrow>
        loginUser ''x@x.com'' ''p'' s = (False, s)
        \<and> getSession (snd (loginUser ''x@x.com'' ''p'' s)) = getSession s)"
proof -
  have a: "fst (loginUser em pw s) = (\<exists>u\<in>set (getUsers s). email u = em \<and> password u = pw)
   \<and> (fst (loginUser em pw s) \<longrightarrow>
        getSession (snd (loginUser em pw s)) = Some \<lparr>session_email = em\<rparr>
        \<and> snd (loginUser em pw s) = s\<lparr>oopsSession := Some \<lparr>session_email = em\<rparr>\<rparr>)
   \<and> (\<not> fst (loginUser em pw s) \<longrightarrow> snd (loginUser em pw s) = s)"
  proof (cases "\<exists>u\<in>set (getUsers s). email u = em \<and> password u = pw")
    case True
    then have "loginUser em pw s = (True, s\<lparr>oopsSession := Some \<lparr>session_email = em\<rparr>\<rparr>)"
      by (rule loginUser_accepted)
    with True show ?thesis by (simp add: getSession_def)
  next
    case False
    then have "loginUser em pw s = (False, s)"
      by (rule loginUser_rejected)
    with False show ?thesis by simp
  qed
  have b: "\<not> (\<exists>u\<in>set (getUsers s). email u = ''x@x.com'' \<and> password u = ''p'') \<longrightarrow>
        loginUser ''x@x.com'' ''p'' s = (False, s)
        \<and> getSession (snd (loginUser ''x@x.com'' ''p'' s)) = getSession s"
    by (simp add: loginUser_rejected)
  from a b show ?thesis by blast
qed

theorem login_succeeds_iff_witness:
  "\<not> fst (loginUser ''x@x.com'' ''p''
        \<lparr>oopsSession = None,
         oopsUsers = Some [\<lparr>email = ''a@b.com'', phone = ''1'', company = ''Acme'', password = ''pw''\<rparr>],
         oopsCart = None\<rparr>)
   \<and> getSession (snd (loginUser ''x@x.com'' ''p''
        \<lparr>oopsSession = None,
         oopsUsers = Some [\<lparr>email = ''a@b.com'', phone = ''1'', company = ''Acme'', password = ''pw''\<rparr>],
         oopsCart = None\<rparr>)) = None
   \<and> fst (loginUser ''a@b.com'' ''pw''
        \<lparr>oopsSession = None,
         oopsUsers = Some [\<lparr>email = ''a@b.com'', phone = ''1'', company = ''Acme'', password = ''pw''\<rparr>],
         oopsCart = None\<rparr>)
   \<and> getSession (snd (loginUser ''a@b.com'' ''pw''
        \<lparr>oopsSession = None,
         oopsUsers = Some [\<lparr>email = ''a@b.com'', phone = ''1'', company = ''Acme'', password = ''pw''\<rparr>],
         oopsCart = None\<rparr>)) = Some \<lparr>session_email = ''a@b.com''\<rparr>"
proof -
  let ?s = "\<lparr>oopsSession = None,
         oopsUsers = Some [\<lparr>email = ''a@b.com'', phone = ''1'', company = ''Acme'', password = ''pw''\<rparr>],
         oopsCart = None\<rparr>"
  have u: "getUsers ?s
      = [\<lparr>email = ''a@b.com'', phone = ''1'', company = ''Acme'', password = ''pw''\<rparr>]"
    by (simp add: getUsers_def)
  have h1: "\<not> (\<exists>u\<in>set (getUsers ?s). email u = ''x@x.com'' \<and> password u = ''p'')"
    by (simp add: u)
  have h2: "\<exists>u\<in>set (getUsers ?s). email u = ''a@b.com'' \<and> password u = ''pw''"
    by (simp add: u)
  have g: "getSession ?s = None"
    by (simp add: getSession_def)
  from login_succeeds_iff [of "''x@x.com''" "''p''" ?s] h1 g
  have r1: "\<not> fst (loginUser ''x@x.com'' ''p'' ?s)
      \<and> getSession (snd (loginUser ''x@x.com'' ''p'' ?s)) = None"
    by simp
  from login_succeeds_iff [of "''a@b.com''" "''pw''" ?s] h2
  have r2: "fst (loginUser ''a@b.com'' ''pw'' ?s)
      \<and> getSession (snd (loginUser ''a@b.com'' ''pw'' ?s)) = Some \<lparr>session_email = ''a@b.com''\<rparr>"
    by blast
  from r1 r2 show ?thesis by blast
qed

text \<open>
  C6. When nobody is logged in, \<open>addToCart\<close> leaves the store, and so the cart, as it was:
  it only shows the notice and redirects to the login page.
\<close>

theorem addToCart_unauthenticated_frame:
  "\<not> isLoggedIn s \<Longrightarrow>
     addToCart prd s =
       (s, [Alert ''Please log in or register as a wholesaler to see pricing and place orders.'',
            Redirect ''login.html''])
     \<and> oopsCart (fst (addToCart prd s)) = oopsCart s
     \<and> getCart (fst (addToCart prd s)) = getCart s"
  by (simp add: addToCart_def)

theorem addToCart_unauthenticated_frame_witness:
  "\<not> isLoggedIn \<lparr>oopsSession = None, oopsUsers = None,
        oopsCart = Some [\<lparr>pid = ''a'', name = ''Test kit'', price = 10, quantity = 3\<rparr>]\<rparr>
   \<and> getCart (fst (addToCart \<lparr>pid = ''b'', name = ''Twin pack'', price = 18\<rparr>
        \<lparr>oopsSession = None, oopsUsers = None,
         oopsCart = Some [\<lparr>pid = ''a'', name = ''Test kit'', price = 10, quantity = 3\<rparr>]\<rparr>))
       = [\<lparr>pid = ''a'', name = ''Test kit'', price = 10, quantity = 3\<rparr>]"
proof -
  let ?s = "\<lparr>oopsSession = None, oopsUsers = None,
        oopsCart = Some [\<lparr>pid = ''a'', name = ''Test kit'', price = 10, quantity = 3\<rparr>]\<rparr>"
  have h: "\<not> isLoggedIn ?s"
    by (simp add: isLoggedIn_def getSession_def)
  have g: "getCart ?s = [\<lparr>pid = ''a'', name = ''Test kit'', price = 10, quantity = 3\<rparr>]"
    by (simp add: getCart_def)
  from addToCart_unauthenticated_frame [OF h, of "\<lparr>pid = ''b'', name = ''Twin pack'', price = 18\<rparr>"] g
  have "getCart (fst (addToCart \<lparr>pid = ''b'', name = ''Twin pack'', price = 18\<rparr> ?s))
      = [\<lparr>pid = ''a'', name = ''Test kit'', price = 10, quantity = 3\<rparr>]"
    by simp
  with h show ?thesis by blast
qed

text \<open>
  C7. Of the three cart mutations only \<open>addToCart\<close> asks whether somebody is logged in.
  As stated for all three the claim fails: with nobody logged in, \<open>removeFromCart\<close> still
  deletes the item and \<open>changeQuantity\<close> still changes its quantity.
\<close>

theorem cart_mutations_ungated_counterexample:
  "\<not> isLoggedIn \<lparr>oopsSession = None, oopsUsers = None,
        oopsCart = Some [\<lparr>pid = ''a'', name = ''Test kit'', price = 10, quantity = 3\<rparr>]\<rparr>
   \<and> getCart \<lparr>oopsSession = None, oopsUsers = None,
        oopsCart = Some [\<lparr>pid = ''a'', name = ''Test kit'', price = 10, quantity = 3\<rparr>]\<rparr>
       = [\<lparr>pid = ''a'', name = ''Test kit'', price = 10, quantity = 3\<rparr>]
   \<and> getCart (fst (removeFromCart
        \<lparr>cartContainer = True, orderSummary = False, checkoutForm = False\<rparr> ''a''
        \<lparr>oopsSession = None, oopsUsers = None,
         oopsCart = Some [\<lparr>pid = ''a'', name = ''Test kit'', price = 10, quantity = 3\<rparr>]\<rparr>))
       = []
   \<and> getCart (fst (changeQuantity
        \<lparr>cartContainer = True, orderSummary = False, checkoutForm = False\<rparr> ''a'' 1
        \<lparr>oopsSession = None, oopsUsers = None,
         oopsCart = Some [\<lparr>pid = ''a'', name = ''Test kit'', price = 10, quantity = 3\<rparr>]\<rparr>))
       = [\<lparr>pid = ''a'', name = ''Test kit'', price = 10, quantity = 4\<rparr>]"
proof -
  let ?s = "\<lparr>oopsSession = None, oopsUsers = None,
        oopsCart = Some [\<lparr>pid = ''a'', name = ''Test kit'', price = 10, quantity = 3\<rparr>]\<rparr>"
  let ?d = "\<lparr>cartContainer = True, orderSummary = False, checkoutForm = False\<rparr>"
  have h: "\<not> isLoggedIn ?s"
    by (simp add: isLoggedIn_def getSession_def)
  have g: "getCart ?s = [\<lparr>pid = ''a'', name = ''Test kit'', price = 10, quantity = 3\<rparr>]"
    by (simp add: getCart_def)
  have r: "getCart (fst (removeFromCart ?d ''a'' ?s)) = []"
    by (simp add: getCart_removeFromCart g)
  have c: "getCart (fst (changeQuantity ?d ''a'' 1 ?s))
      = [\<lparr>pid = ''a'', name = ''Test kit'', price = 10, quantity = 4\<rparr>]"
    by (simp add: getCart_changeQuantity g)
  from h g r c show ?thesis by blast
qed

text \<open>
  C7, amended. With nobody logged in \<open>addToCart\<close> leaves the store unchanged.
  \<open>removeFromCart\<close> and \<open>changeQuantity\<close> do not consult the session: logged in or not,
  the first deletes the items with the given id and the second sets the quantity of the
  first item with the given id to the larger of 1 and the old quantity plus the delta.
\<close>

theorem cart_gating_only_addToCart:
  "(\<not> isLoggedIn s \<longrightarrow> fst (addToCart prd s) = s)
   \<and> getCart (fst (removeFromCart d i s)) = filter (\<lambda>item. pid item \<noteq> i) (getCart s)
   \<and> getCart (fst (changeQuantity d i delta s))
       = update_first (\<lambda>it. pid it = i)
           (\<lambda>it. it\<lparr>quantity := max 1 (quantity it + delta)\<rparr>) (getCart s)
   \<and> oopsSession (fst (removeFromCart d i s)) = oopsSession s
   \<and> oopsSession (fst (changeQuantity d i delta s)) = oopsSession s"
proof -
  have "oopsSession (fst (removeFromCart d i s)) = oopsSession s"
    by (simp add: removeFromCart_def Let_def saveCart_def)
  moreover have "oopsSession (fst (changeQuantity d i delta s)) = oopsSession s"
    by (simp add: changeQuantity_def Let_def saveCart_def split: option.splits)
  ultimately show ?thesis
    by (simp add: addToCart_logged_out getCart_removeFromCart getCart_changeQuantity)
qed

theorem cart_gating_only_addToCart_witness:
  "\<not> isLoggedIn \<lparr>oopsSession = None, oopsUsers = None,
        oopsCart = Some [\<lparr>pid = ''a'', name = ''Test kit'', price = 10, quantity = 3\<rparr>]\<rparr>
   \<and> fst (addToCart \<lparr>pid = ''a'', name = ''Test kit'', price = 10\<rparr>
        \<lparr>oopsSession = None, oopsUsers = None,
         oopsCart = Some [\<lparr>pid = ''a'', name = ''Test kit'', price = 10, quantity = 3\<rparr>]\<rparr>)
       = \<lparr>oopsSession = None, oopsUsers = None,
         oopsCart = Some [\<lparr>pid = ''a'', name = ''Test kit'', price = 10, quantity = 3\<rparr>]\<rparr>
   \<and> getCart (fst (removeFromCart
        \<lparr>cartContainer = True, orderSummary = False, checkoutForm = False\<rparr> ''a''
        \<lparr>oopsSession = None, oopsUsers = None,
         oopsCart = Some [\<lparr>pid = ''a'', name = ''Test kit'', price = 10, quantity = 3\<rparr>]\<rparr>))
       = []"
proof -
  let ?s = "\<lparr>oopsSession = None, oopsUsers = None,
        oopsCart = Some [\<lparr>pid = ''a'', name = ''Test kit'', price = 10, quantity = 3\<rparr>]\<rparr>"
  let ?d = "\<lparr>cartContainer = True, orderSummary = False, checkoutForm = False\<rparr>"
  have h: "\<not> isLoggedIn ?s"
    by (simp add: isLoggedIn_def getSession_def)
  have g: "getCart ?s = [\<lparr>pid = ''a'', name = ''Test kit'', price = 10, quantity = 3\<rparr>]"
    by (simp add: getCart_def)
  note t = cart_gating_only_addToCart [of ?s "\<lparr>pid = ''a'', name = ''Test kit'', price = 10\<rparr>"
      ?d "''a''" 1]
  from t h have a: "fst (addToCart \<lparr>pid = ''a'', name = ''Test kit'', price = 10\<rparr> ?s) = ?s"
    by blast
  from t g have r: "getCart (fst (removeFromCart ?d ''a'' ?s)) = []"
    by simp
  from h a r show ?thesis by blast
qed

text \<open>
  C8. \<open>changeQuantity\<close> does nothing when no item of the cart has the given id. Otherwise the
  first item with that id gets the quantity max(1, old quantity + delta) and nothing else
  changes: no item is removed, and quantities that were at least 1 stay at least 1.
  A delta of -100 on an item of quantity 3 gives quantity 1.
\<close>

theorem changeQuantity_floor:
  "(i \<notin> pid ` set (getCart s) \<longrightarrow> changeQuantity d i delta s = (s, []))
   \<and> (i \<in> pid ` set (getCart s) \<longrightarrow>
        (\<exists>pre item post. getCart s = pre @ item # post \<and> pid item = i \<and> i \<notin> pid ` set pre
           \<and> getCart (fst (changeQuantity d i delta s))
               = pre @ item\<lparr>quantity := max 1 (quantity item + delta)\<rparr> # post
           \<and> 1 \<le> quantity (item\<lparr>quantity := max 1 (quantity item + delta)\<rparr>)))
   \<and> length (getCart (fst (changeQuantity d i delta s))) = length (getCart s)
   \<and> map pid (getCart (fst (changeQuantity d i delta s))) = map pid (getCart s)
   \<and> ((\<forall>it\<in>set (getCart s). 1 \<le> quantity it) \<longrightarrow>
        (\<forall>it\<in>set (getCart (fst (changeQuantity d i delta s))). 1 \<le> quantity it))
   \<and> getCart (fst (changeQuantity d ''a'' (- 100)
         \<lparr>oopsSession = sess, oopsUsers = us,
          oopsCart = Some [\<lparr>pid = ''a'', name = n, price = p, quantity = 3\<rparr>]\<rparr>))
       = [\<lparr>pid = ''a'', name = n, price = p, quantity = 1\<rparr>]"
proof -
  have a: "i \<notin> pid ` set (getCart s) \<longrightarrow> changeQuantity d i delta s = (s, [])"
    by (simp add: changeQuantity_absent)
  have b: "i \<in> pid ` set (getCart s) \<longrightarrow>
        (\<exists>pre item post. getCart s = pre @ item # post \<and> pid item = i \<and> i \<notin> pid ` set pre
           \<and> getCart (fst (changeQuantity d i delta s))
               = pre @ item\<lparr>quantity := max 1 (quantity item + delta)\<rparr> # post
           \<and> 1 \<le> quantity (item\<lparr>quantity := max 1 (quantity item + delta)\<rparr>))"
  proof
    assume "i \<in> pid ` set (getCart s)"
    from changeQuantity_present [OF this, of d delta]
    obtain pre item post where
      h: "getCart s = pre @ item # post \<and> pid item = i \<and> i \<notin> pid ` set pre
        \<and> getCart (fst (changeQuantity d i delta s))
            = pre @ item\<lparr>quantity := max 1 (quantity item + delta)\<rparr> # post"
      by blast
    have "1 \<le> quantity (item\<lparr>quantity := max 1 (quantity item + delta)\<rparr>)"
      by simp
    with h show "\<exists>pre item post. getCart s = pre @ item # post \<and> pid item = i
           \<and> i \<notin> pid ` set pre
           \<and> getCart (fst (changeQuantity d i delta s))
               = pre @ item\<lparr>quantity := max 1 (quantity item + delta)\<rparr> # post
           \<and> 1 \<le> quantity (item\<lparr>quantity := max 1 (quantity item + delta)\<rparr>)"
      by blast
  qed
  have c: "length (getCart (fst (changeQuantity d i delta s))) = length (getCart s)"
    by (simp add: getCart_changeQuantity update_first_length)
  have e: "map pid (getCart (fst (changeQuantity d i delta s))) = map pid (getCart s)"
    by (simp add: getCart_changeQuantity update_first_map_key)
  have f: "(\<forall>it\<in>set (getCart s). 1 \<le> quantity it) \<longrightarrow>
        (\<forall>it\<in>set (getCart (fst (changeQuantity d i delta s))). 1 \<le> quantity it)"
    using changeQuantity_keeps_floor [of s d i delta] by blast
  have g0: "getCart \<lparr>oopsSession = sess, oopsUsers = us,
          oopsCart = Some [\<lparr>pid = ''a'', name = n, price = p, quantity = 3\<rparr>]\<rparr>
       = [\<lparr>pid = ''a'', name = n, price = p, quantity = 3\<rparr>]"
    by (simp add: getCart_def)
  have g: "getCart (fst (changeQuantity d ''a'' (- 100)
         \<lparr>oopsSession = sess, oopsUsers = us,
          oopsCart = Some [\<lparr>pid = ''a'', name = n, price = p, quantity = 3\<rparr>]\<rparr>))
       = [\<lparr>pid = ''a'', name = n, price = p, quantity = 1\<rparr>]"
    by (simp add: getCart_changeQuantity g0)
  from a b c e f g show ?thesis by blast
qed

theorem changeQuantity_floor_witness:
  "''a'' \<in> pid ` set (getCart \<lparr>oopsSession = None, oopsUsers = None,
        oopsCart = Some [\<lparr>pid = ''a'', name = ''Test kit'', price = 10, quantity = 3\<rparr>]\<rparr>)
   \<and> ''b'' \<notin> pid ` set (getCart \<lparr>oopsSession = None, oopsUsers = None,
        oopsCart = Some [\<lparr>pid = ''a'', name = ''Test kit'', price = 10, quantity = 3\<rparr>]\<rparr>)
   \<and> length (getCart (fst (changeQuantity
        \<lparr>cartContainer = True, orderSummary = False, checkoutForm = False\<rparr> ''a'' (- 100)
        \<lparr>oopsSession = None, oopsUsers = None,
         oopsCart = Some [\<lparr>pid = ''a'', name = ''Test kit'', price = 10, quantity = 3\<rparr>]\<rparr>))) = 1
   \<and> getCart (fst (changeQuantity
        \<lparr>cartContainer = True, orderSummary = False, checkoutForm = False\<rparr> ''a'' (- 100)
        \<lparr>oopsSession = None, oopsUsers = None,
         oopsCart = Some [\<lparr>pid = ''a'', name = ''Test kit'', price = 10, quantity = 3\<rparr>]\<rparr>))
       = [\<lparr>pid = ''a'', name = ''Test kit'', price = 10, quantity = 1\<rparr>]
   \<and> changeQuantity
        \<lparr>cartContainer = True, orderSummary = False, checkoutForm = False\<rparr> ''b'' (- 100)
        \<lparr>oopsSession = None, oopsUsers = None,
         oopsCart = Some [\<lparr>pid = ''a'', name = ''Test kit'', price = 10, quantity = 3\<rparr>]\<rparr>
       = (\<lparr>oopsSession = None, oopsUsers = None,
         oopsCart = Some [\<lparr>pid = ''a'', name = ''Test kit'', price = 10, quantity = 3\<rparr>]\<rparr>, [])"
proof -
  let ?s = "\<lparr>oopsSession = None, oopsUsers = None,
        oopsCart = Some [\<lparr>pid = ''a'', name = ''Test kit'', price = 10, quantity = 3\<rparr>]\<rparr>"
  let ?d = "\<lparr>cartContainer = True, orderSummary = False, checkoutForm = False\<rparr>"
  have g: "getCart ?s = [\<lparr>pid = ''a'', name = ''Test kit'', price = 10, quantity = 3\<rparr>]"
    by (simp add: getCart_def)
  have h1: "''a'' \<in> pid ` set (getCart ?s)"
    by (simp add: g)
  have h2: "''b'' \<notin> pid ` set (getCart ?s)"
    by (simp add: g)
  have h3: "\<forall>it\<in>set (getCart ?s). 1 \<le> quantity it"
    by (simp add: g)
  note ta = changeQuantity_floor [of "''a''" ?s ?d "- 100" None None "''Test kit''" 10]
  note tb = changeQuantity_floor [of "''b''" ?s ?d "- 100" None None "''Test kit''" 10]
  from ta g have r1: "length (getCart (fst (changeQuantity ?d ''a'' (- 100) ?s))) = 1"
    by simp
  from ta have r2: "getCart (fst (changeQuantity ?d ''a'' (- 100) ?s))
       = [\<lparr>pid = ''a'', name = ''Test kit'', price = 10, quantity = 1\<rparr>]"
    by blast
  from tb h2 have r3: "changeQuantity ?d ''b'' (- 100) ?s = (?s, [])"
    by blast
  from h1 h2 r1 r2 r3 show ?thesis by blast
qed

text \<open>
  C9. The figures computed on the cart page and those computed on the checkout page are the
  same function of the cart. Both pages do the same rounded operations in the same order
  (add each item total to the running sum, multiply by the rate, subtract), so total
  quantity, discount rate, subtotal, discount amount and grand total agree for every cart
  as doubles, not only up to rounding, and so do the texts that are shown. The cart of one
  item of price 1.01 and quantity 110 gives the same rounded figures on both pages.
\<close>

theorem pricing_paths_agree:
  "cartPricing cart = checkoutPricing cart
   \<and> totalQuantity (cartPricing cart) = totalQuantity (checkoutPricing cart)
   \<and> discountRate (cartPricing cart) = discountRate (checkoutPricing cart)
   \<and> subtotal (cartPricing cart) = subtotal (checkoutPricing cart)
   \<and> discountAmount (cartPricing cart) = discountAmount (checkoutPricing cart)
   \<and> grandTotal (cartPricing cart) = grandTotal (checkoutPricing cart)
   \<and> discountLines (cartPricing cart) = discountLines (checkoutPricing cart)
   \<and> toFixed 2 (grandTotal (cartPricing cart)) = toFixed 2 (grandTotal (checkoutPricing cart))
   \<and> snd (checkoutLoop cart (html, a))
       = foldl (\<lambda>sum item. num_add sum (num_mul (toDouble (price item))
                                            (of_int (quantity item)))) a cart
   \<and> cartPricing [\<lparr>pid = ''a'', name = n, price = 101 / 100, quantity = 110\<rparr>]
       = \<lparr>totalQuantity = 110, discountRate = 1 / 20,
          subtotal = 3908983739069235 / 35184372088832,
          discountAmount = 781796747813847 / 140737488355328,
          grandTotal = 3713534552115773 / 35184372088832\<rparr>
   \<and> checkoutPricing [\<lparr>pid = ''a'', name = n, price = 101 / 100, quantity = 110\<rparr>]
       = \<lparr>totalQuantity = 110, discountRate = 1 / 20,
          subtotal = 3908983739069235 / 35184372088832,
          discountAmount = 781796747813847 / 140737488355328,
          grandTotal = 3713534552115773 / 35184372088832\<rparr>"
proof -
  have l: "snd (checkoutLoop cart (html, a))
       = foldl (\<lambda>sum item. num_add sum (num_mul (toDouble (price item))
                                            (of_int (quantity item)))) a cart"
    by (induction cart arbitrary: html a) (simp_all add: Let_def)
  have e: "cartPricing cart = checkoutPricing cart" for cart
    by (simp add: cartPricing_def checkoutPricing_def Let_def cartDiscountRate_def
        checkoutDiscountRate_def checkoutLoop_snd)
  have r: "cartPricing [\<lparr>pid = ''a'', name = n, price = 101 / 100, quantity = 110\<rparr>]
       = \<lparr>totalQuantity = 110, discountRate = 1 / 20,
          subtotal = 3908983739069235 / 35184372088832,
          discountAmount = 781796747813847 / 140737488355328,
          grandTotal = 3713534552115773 / 35184372088832\<rparr>"
    by (rule cartPricing_rounding)
  then have r': "checkoutPricing [\<lparr>pid = ''a'', name = n, price = 101 / 100, quantity = 110\<rparr>]
       = \<lparr>totalQuantity = 110, discountRate = 1 / 20,
          subtotal = 3908983739069235 / 35184372088832,
          discountAmount = 781796747813847 / 140737488355328,
          grandTotal = 3713534552115773 / 35184372088832\<rparr>"
    by (simp add: e)
  from l e [of cart] r r' show ?thesis by simp
qed

text \<open>
  C10. Distinct item ids are an invariant of the cart: from a cart whose ids are pairwise
  distinct, \<open>addToCart\<close>, \<open>removeFromCart\<close>, \<open>changeQuantity\<close>, submitting the checkout
  form and logging out each give a cart whose ids are pairwise distinct (the last two give
  the empty cart). A logged-in \<open>addToCart\<close> appends an item of quantity 1 when no item has
  the product's id and otherwise adds 1 to the quantity of the item that has it.
\<close>

theorem cart_ids_stay_distinct:
  assumes "distinct (map pid (getCart s))"
  shows "distinct (map pid (getCart (fst (addToCart prd s))))
    \<and> distinct (map pid (getCart (fst (removeFromCart d i s))))
    \<and> distinct (map pid (getCart (fst (changeQuantity d i delta s))))
    \<and> distinct (map pid (getCart (fst (submitCheckoutForm view s))))
    \<and> distinct (map pid (getCart (fst (logoutClick s))))
    \<and> getCart (fst (checkoutSubmit s)) = []
    \<and> getCart (fst (logoutClick s)) = []
    \<and> (isLoggedIn s \<and> pid prd \<notin> pid ` set (getCart s) \<longrightarrow>
         getCart (fst (addToCart prd s))
           = getCart s @ [\<lparr>pid = pid prd, name = name prd, price = price prd, quantity = 1\<rparr>])
    \<and> (isLoggedIn s \<and> pid prd \<in> pid ` set (getCart s) \<longrightarrow>
         (\<exists>pre item post. getCart s = pre @ item # post \<and> pid item = pid prd
            \<and> pid prd \<notin> pid ` set pre
            \<and> getCart (fst (addToCart prd s))
                = pre @ item\<lparr>quantity := quantity item + 1\<rparr> # post))"
proof -
  have a: "distinct (map pid (getCart (fst (addToCart prd s))))"
    using assms by (rule addToCart_distinct)
  have r: "distinct (map pid (getCart (fst (removeFromCart d i s))))"
    using assms by (simp add: getCart_removeFromCart distinct_map_filter)
  have c: "distinct (map pid (getCart (fst (changeQuantity d i delta s))))"
    using assms by (simp add: getCart_changeQuantity update_first_map_key)
  have k: "distinct (map pid (getCart (fst (submitCheckoutForm view s))))"
    using submitCheckoutForm_cart [of view s] assms by auto
  have l: "getCart (fst (logoutClick s)) = []"
    by (simp add: logoutClick_def Let_def getCart_saveCart)
  then have l': "distinct (map pid (getCart (fst (logoutClick s))))"
    by simp
  have m: "getCart (fst (checkoutSubmit s)) = []"
    by (simp add: checkoutSubmit_def Let_def getCart_saveCart)
  have n: "isLoggedIn s \<and> pid prd \<notin> pid ` set (getCart s) \<longrightarrow>
         getCart (fst (addToCart prd s))
           = getCart s @ [\<lparr>pid = pid prd, name = name prd, price = price prd, quantity = 1\<rparr>]"
    by (simp add: addToCart_new)
  have e: "isLoggedIn s \<and> pid prd \<in> pid ` set (getCart s) \<longrightarrow>
         (\<exists>pre item post. getCart s = pre @ item # post \<and> pid item = pid prd
            \<and> pid prd \<notin> pid ` set pre
            \<and> getCart (fst (addToCart prd s))
                = pre @ item\<lparr>quantity := quantity item + 1\<rparr> # post)"
    using addToCart_existing [of s prd] by blast
  from a r c k l l' m n e show ?thesis by blast
qed

theorem cart_ids_stay_distinct_witness:
  "distinct (map pid (getCart \<lparr>oopsSession = Some \<lparr>session_email = ''a@b.com''\<rparr>,
        oopsUsers = None,
        oopsCart = Some [\<lparr>pid = ''a'', name = ''Test kit'', price = 10, quantity = 3\<rparr>]\<rparr>))
   \<and> isLoggedIn \<lparr>oopsSession = Some \<lparr>session_email = ''a@b.com''\<rparr>, oopsUsers = None,
        oopsCart = Some [\<lparr>pid = ''a'', name = ''Test kit'', price = 10, quantity = 3\<rparr>]\<rparr>
   \<and> distinct (map pid (getCart (fst (addToCart \<lparr>pid = ''a'', name = ''Test kit'', price = 10\<rparr>
        \<lparr>oopsSession = Some \<lparr>session_email = ''a@b.com''\<rparr>, oopsUsers = None,
         oopsCart = Some [\<lparr>pid = ''a'', name = ''Test kit'', price = 10, quantity = 3\<rparr>]\<rparr>))))
   \<and> getCart (fst (addToCart \<lparr>pid = ''b'', name = ''Twin pack'', price = 18\<rparr>
        \<lparr>oopsSession = Some \<lparr>session_email = ''a@b.com''\<rparr>, oopsUsers = None,
         oopsCart = Some [\<lparr>pid = ''a'', name = ''Test kit'', price = 10, quantity = 3\<rparr>]\<rparr>))
       = [\<lparr>pid = ''a'', name = ''Test kit'', price = 10, quantity = 3\<rparr>,
          \<lparr>pid = ''b'', name = ''Twin pack'', price = 18, quantity = 1\<rparr>]"
proof -
  let ?s = "\<lparr>oopsSession = Some \<lparr>session_email = ''a@b.com''\<rparr>, oopsUsers = None,
        oopsCart = Some [\<lparr>pid = ''a'', name = ''Test kit'', price = 10, quantity = 3\<rparr>]\<rparr>"
  let ?d = "\<lparr>cartContainer = True, orderSummary = False, checkoutForm = False\<rparr>"
  let ?a = "\<lparr>pid = ''a'', name = ''Test kit'', price = 10\<rparr>"
  let ?b = "\<lparr>pid = ''b'', name = ''Twin pack'', price = 18\<rparr>"
  have g: "getCart ?s = [\<lparr>pid = ''a'', name = ''Test kit'', price = 10, quantity = 3\<rparr>]"
    by (simp add: getCart_def)
  have h0: "distinct (map pid (getCart ?s))"
    by (simp add: g)
  have h1: "isLoggedIn ?s"
    by (simp add: isLoggedIn_def getSession_def)
  have h2: "pid ?b \<notin> pid ` set (getCart ?s)"
    by (simp add: g)
  from cart_ids_stay_distinct [OF h0, of ?a ?d "''a''" 1 None]
  have r1: "distinct (map pid (getCart (fst (addToCart ?a ?s))))"
    by blast
  from cart_ids_stay_distinct [OF h0, of ?b ?d "''a''" 1 None] h1 h2
  have "getCart (fst (addToCart ?b ?s))
      = getCart ?s @ [\<lparr>pid = pid ?b, name = name ?b, price = price ?b, quantity = 1\<rparr>]"
    by blast
  then have r2: "getCart (fst (addToCart ?b ?s))
       = [\<lparr>pid = ''a'', name = ''Test kit'', price = 10, quantity = 3\<rparr>,
          \<lparr>pid = ''b'', name = ''Twin pack'', price = 18, quantity = 1\<rparr>]"
    by (simp add: g)
  from h0 h1 r1 r2 show ?thesis by blast
qed

end
